theory Spec2Isabelle
  imports Main "HOL-Library.Multiset"
begin

section \<open>The realtime connection: \<open>WebSocketAPI\<close> of \<open>App.js\<close>\<close>

text \<open>
  The class keeps four fields that matter here: \<open>socket\<close>, \<open>isConnected\<close>,
  \<open>reconnectAttempts\<close> and \<open>maxReconnectAttempts\<close>. Everything else that the handlers
  touch belongs to the browser: the \<open>WebSocket\<close> objects constructed so far (each with its
  \<open>readyState\<close>) and the timers armed by \<open>setTimeout\<close>. The model keeps both in the same
  record. A socket is named by its handle, the index at which it was constructed.

  Every socket constructed by \<open>connect\<close> carries the same \<open>onopen\<close> and \<open>onclose\<close>
  handlers; \<open>disconnect\<close> does not remove them.
\<close>

datatype readyState = CONNECTING | OPEN | CLOSING | CLOSED

record ws_world =
  socket :: "nat option"
  isConnected :: bool
  reconnectAttempts :: nat
  maxReconnectAttempts :: nat
  sockets :: "readyState list"
  timers :: "nat list"
  sent :: "nat list"

text \<open>The constructor (\<open>App.js\<close>, lines 374 to 380), in a browser with no socket and no timer.\<close>

definition ws_constructor :: ws_world where
  "ws_constructor =
     \<lparr>socket = None, isConnected = False, reconnectAttempts = 0, maxReconnectAttempts = 5,
      sockets = [], timers = [], sent = []\<rparr>"

text \<open>
  \<open>connect\<close> constructs a new \<open>WebSocket\<close>, stores it in \<open>this.socket\<close> and installs the
  handlers. It neither closes a previous socket nor touches the counter.
\<close>

definition connect :: "ws_world \<Rightarrow> ws_world" where
  "connect w = w\<lparr>socket := Some (length (sockets w)), sockets := sockets w @ [CONNECTING]\<rparr>"

text \<open>
  \<open>send\<close> writes to the current socket when the client believes it is connected, and
  only warns otherwise. The list \<open>sent\<close> records the handle written to.
\<close>

definition send :: "ws_world \<Rightarrow> ws_world" where
  "send w =
     (case socket w of
        Some s \<Rightarrow> if isConnected w then w\<lparr>sent := sent w @ [s]\<rparr> else w
      | None \<Rightarrow> w)"

definition onopen :: "ws_world \<Rightarrow> ws_world" where
  "onopen w = send (w\<lparr>isConnected := True, reconnectAttempts := 0\<rparr>)"

text \<open>
  The close handler, lines 418 to 428: the counter is incremented first and the delay is
  computed from the incremented value.
\<close>

definition onclose :: "ws_world \<Rightarrow> ws_world" where
  "onclose w =
     (let w1 = w\<lparr>isConnected := False\<rparr> in
      if reconnectAttempts w1 < maxReconnectAttempts w1
      then (let w2 = w1\<lparr>reconnectAttempts := reconnectAttempts w1 + 1\<rparr>
            in w2\<lparr>timers := timers w2 @ [2000 * reconnectAttempts w2]\<rparr>)
      else w1)"

text \<open>
  \<open>disconnect\<close>, lines 455 to 461. \<open>socket.close()\<close> starts the closing handshake of the
  socket; the browser delivers the socket's close event later, to the handler that is
  still installed.
\<close>

definition sock_close :: "nat \<Rightarrow> readyState list \<Rightarrow> readyState list" where
  "sock_close s ss =
     (if s < length ss \<and> ss ! s \<noteq> CLOSED then ss[s := CLOSING] else ss)"

definition disconnect :: "ws_world \<Rightarrow> ws_world" where
  "disconnect w =
     (case socket w of
        Some s \<Rightarrow> w\<lparr>sockets := sock_close s (sockets w), socket := None, isConnected := False\<rparr>
      | None \<Rightarrow> w)"

text \<open>
  What can happen to the client: a call from the application, an event of one socket, or
  the expiry of a pending timer (which runs \<open>this.connect(userId)\<close>). An event that the
  browser cannot deliver in the given state (an open event of a socket that is not
  connecting, a close event of a socket already closed, a timer that does not exist)
  leaves the state as it is.
\<close>

datatype event =
    Call_connect
  | Call_disconnect
  | Call_send
  | Ev_open nat
  | Ev_close nat
  | Ev_timeout nat

fun fire :: "event \<Rightarrow> ws_world \<Rightarrow> ws_world" where
  "fire Call_connect w = connect w"
| "fire Call_disconnect w = disconnect w"
| "fire Call_send w = send w"
| "fire (Ev_open s) w =
     (if s < length (sockets w) \<and> sockets w ! s = CONNECTING
      then onopen (w\<lparr>sockets := (sockets w)[s := OPEN]\<rparr>) else w)"
| "fire (Ev_close s) w =
     (if s < length (sockets w) \<and> sockets w ! s \<noteq> CLOSED
      then onclose (w\<lparr>sockets := (sockets w)[s := CLOSED]\<rparr>) else w)"
| "fire (Ev_timeout i) w =
     (if i < length (timers w)
      then connect (w\<lparr>timers := take i (timers w) @ drop (Suc i) (timers w)\<rparr>) else w)"

fun run :: "event list \<Rightarrow> ws_world \<Rightarrow> ws_world" where
  "run [] w = w"
| "run (e # es) w = run es (fire e w)"

text \<open>
  The Connected state: the current socket is open and \<open>onopen\<close> has run, so the counter
  is zero.
\<close>

definition connected :: "ws_world \<Rightarrow> bool" where
  "connected w \<longleftrightarrow>
     (case socket w of None \<Rightarrow> False | Some s \<Rightarrow> s < length (sockets w) \<and> sockets w ! s = OPEN)
     \<and> isConnected w \<and> reconnectAttempts w = 0 \<and> maxReconnectAttempts w = 5"

text \<open>Nothing else is going on: no timer is pending and every other socket is closed.\<close>

definition quiet :: "ws_world \<Rightarrow> bool" where
  "quiet w \<longleftrightarrow>
     timers w = [] \<and>
     list_all (\<lambda>i. socket w = Some i \<or> sockets w ! i = CLOSED) [0 ..< length (sockets w)]"

text \<open>
  One failed cycle: the current socket closes, the reconnect timer (if any) expires and
  constructs the next socket. \<open>drops n\<close> is \<open>n\<close> such cycles in a row, no socket opening
  in between.
\<close>

definition drop_current :: "ws_world \<Rightarrow> ws_world" where
  "drop_current w = (case socket w of Some s \<Rightarrow> fire (Ev_close s) w | None \<Rightarrow> w)"

fun drops :: "nat \<Rightarrow> ws_world \<Rightarrow> ws_world" where
  "drops 0 w = w"
| "drops (Suc n) w = fire (Ev_timeout 0) (drop_current (drops n w))"

text \<open>
  Two invariants of the failed cycles. After \<open>n\<close> of them, the current socket is the only
  one not closed, the counter is \<open>n\<close> and no timer is pending. Once the counter has reached
  the maximum and the last socket has closed, nothing is left that could produce an event.
\<close>

definition cycle_inv :: "nat \<Rightarrow> ws_world \<Rightarrow> bool" where
  "cycle_inv n w \<longleftrightarrow>
     (case socket w of
        None \<Rightarrow> False
      | Some s \<Rightarrow> s < length (sockets w) \<and> sockets w ! s \<noteq> CLOSED \<and>
          (\<forall>i < length (sockets w). i \<noteq> s \<longrightarrow> sockets w ! i = CLOSED)) \<and>
     reconnectAttempts w = n \<and> maxReconnectAttempts w = 5 \<and> timers w = []"

definition exhausted :: "ws_world \<Rightarrow> bool" where
  "exhausted w \<longleftrightarrow>
     reconnectAttempts w = 5 \<and> maxReconnectAttempts w = 5 \<and> timers w = [] \<and>
     (\<forall>i < length (sockets w). sockets w ! i = CLOSED)"

section \<open>JavaScript strings\<close>

text \<open>
  A JavaScript string is a sequence of UTF-16 code units. The model writes a code unit as
  a natural number (below 65536 in every real string), so that a character outside the
  Basic Multilingual Plane is the two units of its surrogate pair, as it is for
  \<open>includes\<close>, \<open>indexOf\<close>, \<open>length\<close> and for a regular expression without the
  \<open>u\<close> flag. \<open>js\<close> turns an ASCII literal into such a string.
\<close>

type_synonym jsstring = "nat list"

definition js :: "string \<Rightarrow> jsstring" where
  "js s = map of_char s"

text \<open>
  White space as \<open>trim\<close> and the class \<open>\s\<close> see it: the WhiteSpace and
  LineTerminator code points of ECMAScript.
\<close>

definition is_ws :: "nat \<Rightarrow> bool" where
  "is_ws c \<longleftrightarrow>
     c = 0x9 \<or> c = 0xA \<or> c = 0xB \<or> c = 0xC \<or> c = 0xD \<or> c = 0x20 \<or> c = 0xA0 \<or> c = 0x1680 \<or>
     (0x2000 \<le> c \<and> c \<le> 0x200A) \<or> c = 0x2028 \<or> c = 0x2029 \<or> c = 0x202F \<or> c = 0x205F \<or>
     c = 0x3000 \<or> c = 0xFEFF"

definition trim :: "jsstring \<Rightarrow> jsstring" where
  "trim s = rev (dropWhile is_ws (rev (dropWhile is_ws s)))"

definition is_digit :: "nat \<Rightarrow> bool" where
  "is_digit c \<longleftrightarrow> 0x30 \<le> c \<and> c \<le> 0x39"

text \<open>The dot of a regular expression matches every code unit but the line terminators.\<close>

definition is_line_terminator :: "nat \<Rightarrow> bool" where
  "is_line_terminator c \<longleftrightarrow> c = 0xA \<or> c = 0xD \<or> c = 0x2028 \<or> c = 0x2029"

text \<open>
  The code units of one code point. The glyphs of the source are written through it:
  the pin is \<open>utf16 0x1F4CD\<close>, that is the pair \<open>0xD83D, 0xDCCD\<close>.
\<close>

definition utf16 :: "nat \<Rightarrow> jsstring" where
  "utf16 cp =
     (if cp < 0x10000 then [cp]
      else [0xD800 + (cp - 0x10000) div 0x400, 0xDC00 + (cp - 0x10000) mod 0x400])"

definition pin :: jsstring where "pin = utf16 0x1F4CD"
definition ruler :: jsstring where "ruler = utf16 0x1F4CF"
definition stopwatch :: jsstring where "stopwatch = [0x23F1, 0xFE0F]"
definition globe :: jsstring where "globe = utf16 0x1F310"
definition clipboard :: jsstring where "clipboard = utf16 0x1F4CB"
definition compass :: jsstring where "compass = utf16 0x1F9ED"
definition magnifier :: jsstring where "magnifier = utf16 0x1F50D"
definition cross_mark :: jsstring where "cross_mark = [0x274C]"
definition star :: nat where "star = 0x2B50"
definition green_circle :: jsstring where "green_circle = utf16 0x1F7E2"
definition red_circle :: jsstring where "red_circle = utf16 0x1F534"
definition postbox :: jsstring where "postbox = utf16 0x1F4EE"
definition sun_cloud :: jsstring where "sun_cloud = utf16 0x1F324 @ [0xFE0F]"
definition thermometer :: jsstring where "thermometer = utf16 0x1F321 @ [0xFE0F]"
definition degree_sign :: jsstring where "degree_sign = [0xB0]"

subsection \<open>Searching and cutting\<close>

fun starts_with :: "jsstring \<Rightarrow> jsstring \<Rightarrow> bool" where
  "starts_with s [] = True"
| "starts_with [] (p # ps) = False"
| "starts_with (c # cs) (p # ps) = (c = p \<and> starts_with cs ps)"

text \<open>
  Under the \<open>i\<close> flag (without \<open>u\<close>) a letter of the pattern matches the code units with
  the same canonical form. All patterns of the program are ASCII, and no code unit
  outside ASCII has an ASCII canonical form, so folding the Basic Latin capitals is exact.
\<close>

definition ascii_lower :: "nat \<Rightarrow> nat" where
  "ascii_lower c = (if 0x41 \<le> c \<and> c \<le> 0x5A then c + 0x20 else c)"

fun starts_with_ci :: "jsstring \<Rightarrow> jsstring \<Rightarrow> bool" where
  "starts_with_ci s [] = True"
| "starts_with_ci [] (p # ps) = False"
| "starts_with_ci (c # cs) (p # ps) = (ascii_lower c = ascii_lower p \<and> starts_with_ci cs ps)"

text \<open>\<open>s.indexOf(pat)\<close>, with \<open>None\<close> for \<open>-1\<close>, and \<open>s.includes(pat)\<close>.\<close>

fun indexOf :: "jsstring \<Rightarrow> jsstring \<Rightarrow> nat option" where
  "indexOf [] pat = (if pat = [] then Some 0 else None)"
| "indexOf (c # cs) pat =
     (if starts_with (c # cs) pat then Some 0 else map_option Suc (indexOf cs pat))"

definition js_includes :: "jsstring \<Rightarrow> jsstring \<Rightarrow> bool" where
  "js_includes s pat \<longleftrightarrow> indexOf s pat \<noteq> None"

text \<open>\<open>s.split(sep)\<close> for a separator of one code unit; the empty string gives one empty piece.\<close>

fun split :: "nat \<Rightarrow> jsstring \<Rightarrow> jsstring list" where
  "split sep [] = [[]]"
| "split sep (c # cs) =
     (if c = sep then [] # split sep cs
      else (case split sep cs of [] \<Rightarrow> [[c]] | l # ls \<Rightarrow> (c # l) # ls))"

text \<open>\<open>content.split('\n').filter(line => line.trim())\<close>: the lines that are not blank.\<close>

definition nonblank_lines :: "jsstring \<Rightarrow> jsstring list" where
  "nonblank_lines s = filter (\<lambda>line. trim line \<noteq> []) (split 0xA s)"

text \<open>\<open>s.replace(pat, '')\<close> with a string pattern: the first occurrence only.\<close>

definition replace_first :: "jsstring \<Rightarrow> jsstring \<Rightarrow> jsstring" where
  "replace_first s pat =
     (case indexOf s pat of None \<Rightarrow> s | Some i \<Rightarrow> take i s @ drop (i + length pat) s)"

text \<open>
  \<open>s.replace(/p1|p2|.../g, '')\<close> where every alternative is a literal: scanning from the
  left, the first alternative that matches at the position is removed.
\<close>

function remove_all :: "jsstring list \<Rightarrow> jsstring \<Rightarrow> jsstring" where
  "remove_all pats [] = []"
| "remove_all pats (c # cs) =
     (case find (\<lambda>p. p \<noteq> [] \<and> starts_with (c # cs) p) pats of
        Some p \<Rightarrow> remove_all pats (drop (length p) (c # cs))
      | None \<Rightarrow> c # remove_all pats cs)"
  by pat_completeness auto
termination
  by (relation "measure (\<lambda>(pats, s). length s)") (auto simp: find_Some_iff)

text \<open>
  A regular expression is tried at every position from the left, the end of the string
  included; \<open>first_at m s\<close> is the result of the first position where \<open>m\<close> matches, and
  \<open>first_index m s\<close> is that position.
\<close>

fun first_at :: "(jsstring \<Rightarrow> 'a option) \<Rightarrow> jsstring \<Rightarrow> 'a option" where
  "first_at m [] = m []"
| "first_at m (c # cs) = (case m (c # cs) of Some r \<Rightarrow> Some r | None \<Rightarrow> first_at m cs)"

fun first_index :: "(jsstring \<Rightarrow> 'a option) \<Rightarrow> jsstring \<Rightarrow> nat option" where
  "first_index m [] = (case m [] of Some r \<Rightarrow> Some 0 | None \<Rightarrow> None)"
| "first_index m (c # cs) =
     (case m (c # cs) of Some r \<Rightarrow> Some 0 | None \<Rightarrow> map_option Suc (first_index m cs))"

text \<open>
  A greedy \<open>\s*\<close> followed by the rest \<open>m\<close> of the expression: the longest run of white
  space is tried first, and one unit is given back at a time while \<open>m\<close> fails. The result
  is the white space consumed and what \<open>m\<close> returned.
\<close>

fun ws_star_then :: "(jsstring \<Rightarrow> 'a option) \<Rightarrow> jsstring \<Rightarrow> (jsstring \<times> 'a) option" where
  "ws_star_then m [] = map_option (Pair []) (m [])"
| "ws_star_then m (c # cs) =
     (if is_ws c
      then (case ws_star_then m cs of
              Some (w, r) \<Rightarrow> Some (c # w, r)
            | None \<Rightarrow> map_option (Pair []) (m (c # cs)))
      else map_option (Pair []) (m (c # cs)))"

text \<open>A greedy \<open>(.+)\<close> that ends the expression: the longest run without line terminator.\<close>

definition dot_plus :: "jsstring \<Rightarrow> jsstring option" where
  "dot_plus s =
     (let g = takeWhile (\<lambda>c. \<not> is_line_terminator c) s in if g = [] then None else Some g)"

text \<open>The number of a rating, \<open>\d+\.?\d*(?:\/\d+)?\<close>, at the start of the string.\<close>

definition rating_number :: "jsstring \<Rightarrow> jsstring option" where
  "rating_number s =
     (let d1 = takeWhile is_digit s; r1 = dropWhile is_digit s
      in if d1 = [] then None
         else
           (let dot = (if starts_with r1 [0x2E] then [0x2E] else []);
                r2 = drop (length dot) r1;
                d2 = takeWhile is_digit r2;
                r3 = dropWhile is_digit r2;
                frac = (if starts_with r3 [0x2F] \<and> takeWhile is_digit (drop 1 r3) \<noteq> []
                        then 0x2F # takeWhile is_digit (drop 1 r3) else [])
            in Some (d1 @ dot @ d2 @ frac)))"

subsection \<open>Numbers and text\<close>

text \<open>
  The decimal digits of a number, and the value of a string of decimal digits
  (\<open>parseInt\<close> on the digits a \<open>\d+\<close> group has matched). Both are exact. A JavaScript
  number is a double: it is exact up to \<open>2^53\<close>, and the model is the code for numbers
  up to there; a larger number is rounded by the code and printed differently.
\<close>

function show_nat :: "nat \<Rightarrow> jsstring" where
  "show_nat n = (if n < 10 then [0x30 + n] else show_nat (n div 10) @ [0x30 + n mod 10])"
  by pat_completeness auto
termination
  by (relation "measure (\<lambda>n. n)") auto

declare show_nat.simps [simp del]

definition parseInt :: "jsstring \<Rightarrow> nat" where
  "parseInt ds = foldl (\<lambda>acc c. 10 * acc + (c - 0x30)) 0 ds"

subsection \<open>\<open>encodeURIComponent\<close>\<close>

text \<open>
  The string is read as UTF-16, every code point outside the unreserved set is written as
  the percent-escaped bytes of its UTF-8 form, and a surrogate that has no partner raises
  \<open>URIError\<close> (\<open>None\<close>).
\<close>

definition uri_unreserved :: "nat \<Rightarrow> bool" where
  "uri_unreserved c \<longleftrightarrow>
     (0x41 \<le> c \<and> c \<le> 0x5A) \<or> (0x61 \<le> c \<and> c \<le> 0x7A) \<or> is_digit c \<or>
     c \<in> set (js ''-_.!~*'' @ [0x27] @ js ''()'')"

definition hex_digit :: "nat \<Rightarrow> nat" where
  "hex_digit n = (if n < 10 then 0x30 + n else 0x41 + (n - 10))"

definition pct :: "nat \<Rightarrow> jsstring" where
  "pct b = [0x25, hex_digit (b div 16), hex_digit (b mod 16)]"

definition utf8 :: "nat \<Rightarrow> nat list" where
  "utf8 cp =
     (if cp < 0x80 then [cp]
      else if cp < 0x800 then [0xC0 + cp div 0x40, 0x80 + cp mod 0x40]
      else if cp < 0x10000 then
        [0xE0 + cp div 0x1000, 0x80 + (cp div 0x40) mod 0x40, 0x80 + cp mod 0x40]
      else
        [0xF0 + cp div 0x40000, 0x80 + (cp div 0x1000) mod 0x40, 0x80 + (cp div 0x40) mod 0x40,
         0x80 + cp mod 0x40])"

definition is_high_surrogate :: "nat \<Rightarrow> bool" where
  "is_high_surrogate c \<longleftrightarrow> 0xD800 \<le> c \<and> c \<le> 0xDBFF"

definition is_low_surrogate :: "nat \<Rightarrow> bool" where
  "is_low_surrogate c \<longleftrightarrow> 0xDC00 \<le> c \<and> c \<le> 0xDFFF"


definition code_point :: "nat \<Rightarrow> nat \<Rightarrow> nat" where
  "code_point hi lo = 0x10000 + (hi - 0xD800) * 0x400 + (lo - 0xDC00)"

definition escape :: "nat \<Rightarrow> jsstring" where
  "escape cp = concat (map pct (utf8 cp))"

text \<open>The first argument is the high surrogate read last and still waiting for its partner.\<close>

fun encode :: "nat option \<Rightarrow> jsstring \<Rightarrow> jsstring option" where
  "encode None [] = Some []"
| "encode (Some hi) [] = None"
| "encode None (c # cs) =
     (if uri_unreserved c then map_option ((#) c) (encode None cs)
      else if is_low_surrogate c then None
      else if is_high_surrogate c then encode (Some c) cs
      else map_option ((@) (escape c)) (encode None cs))"
| "encode (Some hi) (c # cs) =
     (if is_low_surrogate c then map_option ((@) (escape (code_point hi c))) (encode None cs)
      else None)"

definition encodeURIComponent :: "jsstring \<Rightarrow> jsstring option" where
  "encodeURIComponent s = encode None s"


section \<open>Session reconstruction: \<open>groupInteractionsBySessions\<close> of \<open>Dashboard.js\<close>\<close>

text \<open>
  An interaction as the backend sends it. A field that is missing or \<open>null\<close> is \<open>None\<close>.
  \<open>timestamp\<close> is the time value of \<open>new Date(interaction.timestamp)\<close>, in milliseconds
  since the epoch; the model covers timestamps that parse to a valid date.
\<close>

record interaction =
  user_input :: "jsstring option"
  agent_response :: "jsstring option"
  agent_id :: "jsstring option"
  timestamp :: int
  actions_taken :: "jsstring list option"

datatype role = User | Assistant

record message =
  msg_type :: role
  msg_content :: jsstring
  msg_timestamp :: int
  msg_agent_id :: "jsstring option"
  msg_actions_taken :: "jsstring list"

text \<open>
  What \<open>formatSessionDate\<close> returns: one of the three fixed wordings, or the date printed
  by \<open>toLocaleDateString('en-US', ...)\<close> with a short month and a numeric day, the year
  being printed or not.
\<close>

datatype display_date =
    Today
  | Yesterday
  | Days_ago int
  | Month_day int
  | Month_day_year int

text \<open>
  What the function takes from its host: the local calendar (\<open>toDateString\<close> names the
  local calendar day of an instant, \<open>getFullYear\<close> gives its local year), the clock
  (\<open>clock k\<close> is what the \<open>k\<close>-th reading of \<open>Date.now()\<close> or \<open>new Date()\<close> during the
  call returns) and the random source (\<open>random k\<close> is the \<open>k\<close>-th value of
  \<open>Math.random()\<close>).
\<close>

record ('d, 'r) host =
  toDateString :: "int \<Rightarrow> 'd"
  getFullYear :: "int \<Rightarrow> int"
  clock :: "nat \<Rightarrow> int"
  random :: "nat \<Rightarrow> 'r"

text \<open>
  The session identifier is the template \<open>session_${Date.now()}_${Math.random()}_${i}\<close>;
  the model keeps its three holes.
\<close>

record ('d, 'r) session =
  session_id :: "int \<times> 'r \<times> nat"
  date :: 'd
  displayDate :: display_date
  startTime :: int
  lastInteraction :: int
  interactions :: "message list"
  messageCount :: nat

text \<open>
  \<open>formatSessionDate\<close>, lines 421 to 439. The code computes in double precision. Time
  values are integers that a double holds exactly; their difference and the floor of its
  quotient by the length of a day are the integer difference and the floored division as
  long as the difference does not exceed \<open>2^53\<close> in magnitude (some 285000 years), and
  the model is the code within that range, \<open>exact_range\<close>. Beyond it the code rounds,
  and the model does not follow it.
\<close>

definition exact_range :: "int \<Rightarrow> bool" where
  "exact_range x \<longleftrightarrow> \<bar>x\<bar> \<le> 2 ^ 53"

definition formatSessionDate :: "(int \<Rightarrow> int) \<Rightarrow> int \<Rightarrow> int \<Rightarrow> display_date" where
  "formatSessionDate year now d =
     (let diffTime = now - d;
          diffDays = diffTime div (1000 * 60 * 60 * 24)
      in if diffDays = 0 then Today
         else if diffDays = 1 then Yesterday
         else if diffDays < 7 then Days_ago diffDays
         else if year d \<noteq> year now then Month_day_year d else Month_day d)"

text \<open>The test \<open>s && s.trim()\<close>: the field is present, and not empty once trimmed.\<close>

definition nonblank :: "jsstring option \<Rightarrow> bool" where
  "nonblank f \<longleftrightarrow> (case f of None \<Rightarrow> False | Some s \<Rightarrow> s \<noteq> [] \<and> trim s \<noteq> [])"

definition user_message :: "interaction \<Rightarrow> message" where
  "user_message x =
     \<lparr>msg_type = User, msg_content = the (user_input x), msg_timestamp = timestamp x,
      msg_agent_id = agent_id x,
      msg_actions_taken = (case actions_taken x of None \<Rightarrow> [] | Some a \<Rightarrow> a)\<rparr>"

definition assistant_message :: "interaction \<Rightarrow> message" where
  "assistant_message x =
     \<lparr>msg_type = Assistant, msg_content = the (agent_response x), msg_timestamp = timestamp x,
      msg_agent_id = agent_id x,
      msg_actions_taken = (case actions_taken x of None \<Rightarrow> [] | Some a \<Rightarrow> a)\<rparr>"

definition push_message :: "message \<Rightarrow> ('d, 'r) session \<Rightarrow> ('d, 'r) session" where
  "push_message m s = s\<lparr>interactions := interactions s @ [m], messageCount := messageCount s + 1\<rparr>"

text \<open>
  A new session is the \<open>k\<close>-th one when \<open>k\<close> sessions exist already. The object literal
  reads the clock and the random source for the identifier, and \<open>formatSessionDate\<close> reads
  the clock once more.
\<close>

definition new_session :: "('d, 'r) host \<Rightarrow> nat \<Rightarrow> nat \<Rightarrow> int \<Rightarrow> ('d, 'r) session" where
  "new_session h k i d =
     \<lparr>session_id = (clock h (2 * k), random h k, i),
      date = toDateString h d,
      displayDate = formatSessionDate (getFullYear h) (clock h (2 * k + 1)) d,
      startTime = d, lastInteraction = d, interactions = [], messageCount = 0\<rparr>"

text \<open>
  One turn of the loop, lines 348 to 409. \<open>sessions\<close> is the array in the order of the
  pushes; \<open>currentSession\<close> is the object pushed last, so it is the last element and an
  update of it is an update of that element. It is \<open>null\<close> exactly while the array is empty.
\<close>

definition loop_body ::
  "('d, 'r) host \<Rightarrow> ('d, 'r) session list \<Rightarrow> nat \<Rightarrow> interaction \<Rightarrow> ('d, 'r) session list" where
  "loop_body h sessions i x =
     (let interactionDate = timestamp x;
          dateString = toDateString h interactionDate;
          sessions1 =
            (if sessions = [] \<or> date (last sessions) \<noteq> dateString
                \<or> interactionDate - lastInteraction (last sessions) > 30 * 60 * 1000
             then sessions @ [new_session h (length sessions) i interactionDate]
             else sessions);
          cur = last sessions1;
          cur1 = (if nonblank (user_input x) then push_message (user_message x) cur else cur);
          cur2 = (if nonblank (agent_response x) then push_message (assistant_message x) cur1
                  else cur1);
          cur3 = cur2\<lparr>lastInteraction := interactionDate\<rparr>
      in butlast sessions1 @ [cur3])"

fun loop :: "('d, 'r) host \<Rightarrow> ('d, 'r) session list \<Rightarrow> nat \<Rightarrow> interaction list \<Rightarrow> ('d, 'r) session list" where
  "loop h sessions i [] = sessions"
| "loop h sessions i (x # xs) = loop h (loop_body h sessions i x) (Suc i) xs"

text \<open>
  The arrays of the program live in a store, a list of arrays addressed by position; the
  argument \<open>interactions\<close> (here \<open>arr\<close>) is an address, or \<open>None\<close> for \<open>null\<close> and \<open>undefined\<close>. The
  interaction objects themselves are never assigned to. \<open>[...interactions]\<close> allocates a
  new array, and \<open>sort\<close> (a stable sort, by the difference of the timestamps) reorders that
  new array in place. The function returns the sessions, most recent first, and the store
  it leaves behind.
\<close>

type_synonym store = "interaction list list"

definition groupInteractionsBySessions ::
  "('d, 'r) host \<Rightarrow> store \<Rightarrow> nat option \<Rightarrow> ('d, 'r) session list \<times> store" where
  "groupInteractionsBySessions h st arr =
     (case arr of
        None \<Rightarrow> ([], st)
      | Some a \<Rightarrow>
          if length (st ! a) = 0 then ([], st)
          else
            (let sortedInteractions = length st;
                 st1 = st @ [st ! a];
                 st2 = st1[sortedInteractions := sort_key timestamp (st1 ! sortedInteractions)];
                 sessions = loop h [] 0 (st2 ! sortedInteractions)
             in (rev sessions, st2)))"

text \<open>
  A host whose local time is UTC: the calendar day is the day number since the epoch, and
  the year follows from the day number by the usual civil-calendar computation. The clock
  stands still at \<open>now\<close> and the random source returns its own index.
\<close>

definition utc_day :: "int \<Rightarrow> int" where
  "utc_day t = t div 86400000"

definition utc_year :: "int \<Rightarrow> int" where
  "utc_year t =
     (let z = utc_day t + 719468;
          era = z div 146097;
          doe = z mod 146097;
          yoe = (doe - doe div 1460 + doe div 36524 - doe div 146096) div 365;
          doy = doe - (365 * yoe + yoe div 4 - yoe div 100);
          mp = (5 * doy + 2) div 153
      in yoe + era * 400 + (if mp < 10 then 0 else 1))"

definition utc_host :: "int \<Rightarrow> (int, nat) host" where
  "utc_host now = \<lparr>toDateString = utc_day, getFullYear = utc_year, clock = (\<lambda>k. now), random = (\<lambda>k. k)\<rparr>"

text \<open>Two interactions that carry the same timestamp, for the examples below.\<close>

definition ia_first :: interaction where
  "ia_first = \<lparr>user_input = Some (js ''lock the doors''), agent_response = Some (js ''Doors locked.''),
     agent_id = None, timestamp = 1000, actions_taken = None\<rparr>"

definition ia_second :: interaction where
  "ia_second = \<lparr>user_input = Some (js ''play music''), agent_response = None,
     agent_id = None, timestamp = 1000, actions_taken = None\<rparr>"

definition ia_later :: interaction where
  "ia_later = \<lparr>user_input = Some (js ''play music''), agent_response = None,
     agent_id = None, timestamp = 61000, actions_taken = None\<rparr>"

section \<open>Response classification: \<open>formatResponse\<close> of \<open>Dashboard.js\<close>\<close>

text \<open>
  Each formatter returns a React element. The model keeps, for every shape of element the
  formatters can return, the values that fill its holes; the fixed markup around them is
  what the name of the constructor stands for.
\<close>

record place =
  name :: jsstring
  distance :: jsstring
  rating :: "jsstring option"
  status :: jsstring
  address :: jsstring
  mapsUrl :: jsstring

datatype element =
    No_content
  | Error_response jsstring
  | Parse_error_response jsstring
  | Directions_response jsstring jsstring jsstring "(jsstring \<times> jsstring) list" jsstring
  | Location_response jsstring
  | Place_search_response jsstring jsstring "place list"
  | General_response_link jsstring jsstring "jsstring option"
  | General_response jsstring

text \<open>
  \<open>No_content\<close> is \<open><div className="response-formatted">No response content</div>\<close>.
  \<open>Error_response content\<close> is the \<open>error-response\<close> block with the cross mark, and
  \<open>Parse_error_response content\<close> the one of the \<open>catch\<close> branch.
  \<open>Directions_response destination distance duration steps mapsUrl\<close> is the
  \<open>directions-response\<close> block, a step being its number and its instruction.
  \<open>Location_response text\<close> is the \<open>location-response\<close> block.
  \<open>Place_search_response count placeType places\<close> is the \<open>place-search-response\<close> block.
  \<open>General_response_link before url after\<close> and \<open>General_response content\<close> are the two
  \<open>general-response\<close> blocks.
\<close>

datatype js_error = TypeError | URIError

subsection \<open>\<open>formatGeneralResponse\<close>, lines 1194 to 1234\<close>

text \<open>
  The expression \<open>/https:\/\/www\.google\.com\/maps[^\s]*/\<close> at the start of a string:
  the text it matches there.
\<close>

definition maps_url_at :: "jsstring \<Rightarrow> jsstring option" where
  "maps_url_at s =
     (if starts_with s (js ''https://www.google.com/maps'')
      then Some (js ''https://www.google.com/maps'' @
                 takeWhile (\<lambda>c. \<not> is_ws c) (drop (length (js ''https://www.google.com/maps'')) s))
      else None)"

text \<open>
  \<open>content.split(re)\<close> cuts at every match; the first two pieces are the text before
  the first match, and the text from its end to the next match or to the end.
\<close>

definition formatGeneralResponse :: "jsstring \<Rightarrow> element" where
  "formatGeneralResponse content =
     (if js_includes content (js ''https://www.google.com/maps'')
      then (case first_index maps_url_at content of
              None \<Rightarrow> General_response content
            | Some i \<Rightarrow>
                (let url = the (maps_url_at (drop i content));
                     rest = drop (i + length url) content;
                     part0 = take i content;
                     part1 = (case first_index maps_url_at rest of
                                None \<Rightarrow> rest | Some j \<Rightarrow> take j rest)
                 in General_response_link (trim part0) url
                      (if part1 = [] then None else Some (trim part1))))
      else General_response content)"

subsection \<open>\<open>formatLocationResponse\<close>, lines 1180 to 1192\<close>

text \<open>\<open>lines[0]\<close> of an empty array is \<open>undefined\<close>, and calling \<open>replace\<close> on it throws.\<close>

definition formatLocationResponse :: "jsstring \<Rightarrow> js_error + element" where
  "formatLocationResponse content =
     (case nonblank_lines content of
        [] \<Rightarrow> Inl TypeError
      | mainLocation # rest \<Rightarrow> Inr (Location_response (trim (replace_first mainLocation pin))))"

subsection \<open>\<open>formatDirectionsResponse\<close>, lines 1035 to 1178\<close>

record dir_state =
  destination :: jsstring
  dir_distance :: jsstring
  duration :: jsstring
  directions :: "jsstring list"
  dir_mapsUrl :: jsstring
  hasError :: bool

definition dir_init :: dir_state where
  "dir_init = \<lparr>destination = [], dir_distance = [], duration = [], directions = [],
     dir_mapsUrl = [], hasError = False\<rparr>"

text \<open>\<open>/https:\/\/[^\s]+/\<close> at the start of a string.\<close>

definition https_url_at :: "jsstring \<Rightarrow> jsstring option" where
  "https_url_at s =
     (if starts_with s (js ''https://'') \<and> takeWhile (\<lambda>c. \<not> is_ws c) (drop 8 s) \<noteq> []
      then Some (js ''https://'' @ takeWhile (\<lambda>c. \<not> is_ws c) (drop 8 s))
      else None)"

text \<open>\<open>/^\d+\./\<close>: the line starts with digits and a dot.\<close>

definition is_step :: "jsstring \<Rightarrow> bool" where
  "is_step line \<longleftrightarrow> takeWhile is_digit line \<noteq> [] \<and> starts_with (dropWhile is_digit line) [0x2E]"

text \<open>
  \<open>/^(\d+)\.\s*(.+)/\<close>: the two groups, the digits and the text after the dot and the
  white space.
\<close>

definition numberedMatch :: "jsstring \<Rightarrow> (jsstring \<times> jsstring) option" where
  "numberedMatch line =
     (if is_step line
      then map_option (\<lambda>(w, g). (takeWhile is_digit line, g))
             (ws_star_then dot_plus (drop 1 (dropWhile is_digit line)))
      else None)"

text \<open>One line of the loop: the chain of \<open>else if\<close> takes the first test that holds.\<close>

definition dir_line :: "dir_state \<Rightarrow> jsstring \<Rightarrow> dir_state" where
  "dir_line st line =
     (let trimmedLine = trim line in
      if js_includes trimmedLine (pin @ js '' Destination:'')
      then st\<lparr>destination := trim (replace_first trimmedLine (pin @ js '' Destination:''))\<rparr>
      else if js_includes trimmedLine (ruler @ js '' Distance:'')
      then st\<lparr>dir_distance := trim (replace_first trimmedLine (ruler @ js '' Distance:''))\<rparr>
      else if js_includes trimmedLine (stopwatch @ js '' Duration:'')
      then st\<lparr>duration := trim (replace_first trimmedLine (stopwatch @ js '' Duration:''))\<rparr>
      else if js_includes trimmedLine (globe @ js '' Open in Google Maps:'')
      then (case first_at https_url_at trimmedLine of
              Some url \<Rightarrow> st\<lparr>dir_mapsUrl := url\<rparr>
            | None \<Rightarrow> st)
      else if is_step trimmedLine
      then st\<lparr>directions := directions st @ [trimmedLine]\<rparr>
      else if js_includes trimmedLine cross_mark
      then st\<lparr>hasError := True\<rparr>
      else st)"

text \<open>
  A step as it is rendered: the number and instruction that \<open>/^(\d+)\.\s*(.+)/\<close> finds,
  or else the position (counted from one) and the whole line.
\<close>

definition render_step :: "nat \<Rightarrow> jsstring \<Rightarrow> jsstring \<times> jsstring" where
  "render_step index direction =
     (case numberedMatch direction of
        Some (stepNumber, instruction) \<Rightarrow> (stepNumber, instruction)
      | None \<Rightarrow> (show_nat (index + 1), direction))"

text \<open>
  The body of the \<open>try\<close> block. Nothing in it can throw, so it always ends in \<open>Inr\<close>; the
  \<open>catch\<close> branch is kept for what it would return.
\<close>

definition directions_body :: "jsstring \<Rightarrow> js_error + element" where
  "directions_body content =
     (let st = foldl dir_line dir_init (nonblank_lines content) in
      if hasError st \<or> destination st = []
      then Inr (Error_response content)
      else Inr (Directions_response (destination st) (dir_distance st) (duration st)
                  (map (\<lambda>(index, direction). render_step index direction)
                     (enumerate 0 (directions st)))
                  (dir_mapsUrl st)))"

definition formatDirectionsResponse :: "jsstring \<Rightarrow> element" where
  "formatDirectionsResponse content =
     (case directions_body content of
        Inr e \<Rightarrow> e
      | Inl error \<Rightarrow> Parse_error_response content)"

subsection \<open>\<open>formatPlaceSearchResponse\<close>, lines 878 to 1032\<close>

text \<open>
  \<open>/Found (\d+) ([^(]+?)(?:\s*\(|near you)/i\<close>. The digits are followed by a space, so
  the first group is the whole run of digits. The second group is lazy: it is the shortest
  non-empty text without an opening parenthesis after which the closing alternative
  matches.
\<close>

definition found_closing :: "jsstring \<Rightarrow> bool" where
  "found_closing s \<longleftrightarrow>
     starts_with (dropWhile is_ws s) [0x28] \<or> starts_with_ci s (js ''near you'')"

fun place_type :: "jsstring \<Rightarrow> jsstring option" where
  "place_type [] = None"
| "place_type (c # cs) =
     (if c = 0x28 then None
      else if found_closing cs then Some [c]
      else map_option ((#) c) (place_type cs))"

definition found_at :: "jsstring \<Rightarrow> (jsstring \<times> jsstring) option" where
  "found_at s =
     (if starts_with_ci s (js ''Found '')
      then (let r = drop 6 s; digits = takeWhile is_digit r; r1 = dropWhile is_digit r
            in if digits \<noteq> [] \<and> starts_with r1 [0x20]
               then map_option (Pair digits) (place_type (drop 1 r1))
               else None)
      else None)"

definition foundMatch :: "jsstring \<Rightarrow> (jsstring \<times> jsstring) option" where
  "foundMatch s = first_at found_at s"

text \<open>
  \<open>/\(([^)]+)\)/\<close>: an opening parenthesis, the longest run without a closing one, which
  must not be empty, and the closing parenthesis.
\<close>

definition paren_at :: "jsstring \<Rightarrow> jsstring option" where
  "paren_at s =
     (case s of
        [] \<Rightarrow> None
      | c # r \<Rightarrow>
          if c = 0x28 \<and> takeWhile (\<lambda>x. x \<noteq> 0x29) r \<noteq> [] \<and> dropWhile (\<lambda>x. x \<noteq> 0x29) r \<noteq> []
          then Some (takeWhile (\<lambda>x. x \<noteq> 0x29) r) else None)"

text \<open>\<open>/STAR\s*(\d+\.?\d*(?:\/\d+)?)/\<close>, the star being the code unit \<open>0x2B50\<close>.\<close>

definition star_rating_at :: "jsstring \<Rightarrow> jsstring option" where
  "star_rating_at s =
     (case s of
        [] \<Rightarrow> None
      | c # r \<Rightarrow> if c = star then rating_number (dropWhile is_ws r) else None)"

text \<open>\<open>/POSTBOX\s*(.+)/\<close>, the postbox being a surrogate pair.\<close>

definition address_at :: "jsstring \<Rightarrow> jsstring option" where
  "address_at s =
     (if starts_with s postbox
      then map_option snd (ws_star_then dot_plus (drop (length postbox) s))
      else None)"

text \<open>
  The class of star, green circle, red circle and postbox in \<open>/[...]/g\<close> has no \<open>u\<close>
  flag: it holds the star and both halves of each
  of the three surrogate pairs, and every such code unit is removed on its own.
\<close>

definition unwanted :: "nat \<Rightarrow> bool" where
  "unwanted c \<longleftrightarrow> c = star \<or> c \<in> set green_circle \<or> c \<in> set red_circle \<or> c \<in> set postbox"

text \<open>\<open>s.substring(0, s.indexOf(x))\<close> and \<open>s.substring(s.indexOf(x) + 1)\<close>; \<open>-1\<close> counts as 0.\<close>

definition before_first :: "jsstring \<Rightarrow> jsstring \<Rightarrow> jsstring" where
  "before_first s x = (case indexOf s x of None \<Rightarrow> [] | Some i \<Rightarrow> take i s)"

definition after_first :: "jsstring \<Rightarrow> jsstring \<Rightarrow> jsstring" where
  "after_first s x = (case indexOf s x of None \<Rightarrow> s | Some i \<Rightarrow> drop (i + 1) s)"

text \<open>
  The fields read from an entry once the pin is removed: name, distance, rating, status
  and address, by the branch with a parenthesized distance or by the simpler one.
\<close>

definition entry_fields :: "jsstring \<Rightarrow> jsstring \<times> jsstring \<times> jsstring \<times> jsstring \<times> jsstring" where
  "entry_fields cleanLine =
     (case first_at paren_at cleanLine of
        Some d \<Rightarrow>
          (let afterDistance = trim (after_first cleanLine [0x29])
           in (trim (before_first cleanLine [0x28]),
               d,
               (case first_at star_rating_at afterDistance of Some r \<Rightarrow> r | None \<Rightarrow> []),
               (if js_includes afterDistance green_circle then js ''Open''
                else if js_includes afterDistance red_circle then js ''Closed'' else []),
               (case first_at address_at afterDistance of Some a \<Rightarrow> trim a | None \<Rightarrow> [])))
      | None \<Rightarrow>
          (let parts = split star cleanLine
           in (trim (hd parts),
               [],
               (if length parts > 1
                then (case first_at rating_number (trim (parts ! 1)) of
                        Some r \<Rightarrow> r | None \<Rightarrow> [])
                else []),
               [], [])))"

text \<open>
  The body of the loop for a numbered entry (the local variables are primed, the fields
  of the place pushed keep their names). The result is the place pushed, if any;
  \<open>encodeURIComponent\<close> may throw.
\<close>

definition parse_entry :: "jsstring \<Rightarrow> js_error + place option" where
  "parse_entry entryContent =
     (let cleanLine = trim (replace_first entryContent pin);
          (name0, distance', rating', status', address') = entry_fields cleanLine;
          name' = trim (filter (\<lambda>c. \<not> unwanted c) name0)
      in if name' \<noteq> []
         then (case encodeURIComponent (name' @ (if address' \<noteq> [] then 0x20 # address' else [])) of
                 None \<Rightarrow> Inl URIError
               | Some q \<Rightarrow>
                   Inr (Some \<lparr>name = name', distance = distance',
                              rating = (if rating' \<noteq> [] then Some (star # 0x20 # rating') else None),
                              status = status', address = address',
                              mapsUrl = js ''https://www.google.com/maps/search/'' @ q\<rparr>))
         else Inr None)"


text \<open>The loop over the lines after the header; an exception ends it.\<close>

fun parse_places :: "place list \<Rightarrow> jsstring list \<Rightarrow> js_error + place list" where
  "parse_places places [] = Inr places"
| "parse_places places (l # ls) =
     (case numberedMatch (trim l) of
        None \<Rightarrow> parse_places places ls
      | Some (n, entryContent) \<Rightarrow>
          (case parse_entry entryContent of
             Inl e \<Rightarrow> Inl e
           | Inr None \<Rightarrow> parse_places places ls
           | Inr (Some p) \<Rightarrow> parse_places (places @ [p]) ls))"

definition formatPlaceSearchResponse :: "jsstring \<Rightarrow> js_error + element" where
  "formatPlaceSearchResponse content =
     (case nonblank_lines content of
        [] \<Rightarrow> Inl TypeError
      | headerLine # rest \<Rightarrow>
          (case foundMatch headerLine of
             None \<Rightarrow> Inr (formatGeneralResponse content)
           | Some (count', placeType) \<Rightarrow>
               (case parse_places [] rest of
                  Inl e \<Rightarrow> Inl e
                | Inr places \<Rightarrow> Inr (Place_search_response count' (trim placeType) places))))"

subsection \<open>\<open>formatResponse\<close>, lines 1236 to 1250\<close>

text \<open>
  \<open>/Found \d+ .+ near you/i\<close>, as a test. After the digits and the space, some non-empty
  run without line terminator must be followed by \<open>" near you"\<close>.
\<close>

fun dots_then_near :: "jsstring \<Rightarrow> bool" where
  "dots_then_near [] = False"
| "dots_then_near (c # cs) =
     (\<not> is_line_terminator c \<and> (starts_with_ci cs (js '' near you'') \<or> dots_then_near cs))"

definition found_near_at :: "jsstring \<Rightarrow> unit option" where
  "found_near_at s =
     (if starts_with_ci s (js ''Found '')
         \<and> takeWhile is_digit (drop 6 s) \<noteq> []
         \<and> starts_with (dropWhile is_digit (drop 6 s)) [0x20]
         \<and> dots_then_near (drop 1 (dropWhile is_digit (drop 6 s)))
      then Some () else None)"

definition formatResponse :: "jsstring \<Rightarrow> js_error + element" where
  "formatResponse content =
     (if content = [] then Inr No_content
      else if js_includes content (js ''Turn-by-turn directions'') \<or> js_includes content clipboard
              \<or> js_includes content compass
      then Inr (formatDirectionsResponse content)
      else if js_includes content pin \<and> length (split 0xA content) \<le> 3
      then formatLocationResponse content
      else if first_at found_near_at content \<noteq> None \<or> js_includes content magnifier
      then formatPlaceSearchResponse content
      else Inr (formatGeneralResponse content))"

text \<open>The example of the specification, and the same text with one more line.\<close>

definition cafes :: jsstring where
  "cafes =
     js ''Found 3 restaurants near you (sample)'' @ [0xA] @
     js ''1. '' @ pin @ js '' Cafe A (0.5 mi) '' @ [star] @ js '' 4.5 '' @ green_circle @ [0xA] @
     js ''2. '' @ pin @ js '' Cafe B (1.2 mi) '' @ [star] @ js '' 4.0 '' @ red_circle"

definition cafes_spaced :: jsstring where
  "cafes_spaced =
     js ''Found 3 restaurants near you (sample)'' @ [0xA, 0xA] @
     js ''1. '' @ pin @ js '' Cafe A (0.5 mi) '' @ [star] @ js '' 4.5 '' @ green_circle @ [0xA] @
     js ''2. '' @ pin @ js '' Cafe B (1.2 mi) '' @ [star] @ js '' 4.0 '' @ red_circle"

definition cafes_places :: element where
  "cafes_places =
     Place_search_response (js ''3'') (js ''restaurants'')
       [\<lparr>name = js ''Cafe A'', distance = js ''0.5 mi'', rating = Some (star # js '' 4.5''),
          status = js ''Open'', address = [],
          mapsUrl = js ''https://www.google.com/maps/search/Cafe%20A''\<rparr>,
        \<lparr>name = js ''Cafe B'', distance = js ''1.2 mi'', rating = Some (star # js '' 4.0''),
          status = js ''Closed'', address = [],
          mapsUrl = js ''https://www.google.com/maps/search/Cafe%20B''\<rparr>]"

text \<open>
  For the statements about the directions parser: the dispatcher sends the text to it; a
  line sets \<open>hasError\<close> when it holds the cross mark and passes none of the tests that
  come before in the chain; a line sets the destination.
\<close>

definition error_line :: "jsstring \<Rightarrow> bool" where
  "error_line line \<longleftrightarrow>
     js_includes (trim line) cross_mark
     \<and> \<not> js_includes (trim line) (pin @ js '' Destination:'')
     \<and> \<not> js_includes (trim line) (ruler @ js '' Distance:'')
     \<and> \<not> js_includes (trim line) (stopwatch @ js '' Duration:'')
     \<and> \<not> js_includes (trim line) (globe @ js '' Open in Google Maps:'')
     \<and> \<not> is_step (trim line)"

definition destination_line :: "jsstring \<Rightarrow> bool" where
  "destination_line line \<longleftrightarrow> js_includes (trim line) (pin @ js '' Destination:'')"

definition directions_selected :: "jsstring \<Rightarrow> bool" where
  "directions_selected content \<longleftrightarrow>
     js_includes content (js ''Turn-by-turn directions'') \<or> js_includes content clipboard
     \<or> js_includes content compass"

definition closed_road :: jsstring where
  "closed_road =
     compass @ js '' Route'' @ [0xA] @ pin @ js '' Destination: Home'' @ [0xA] @
     js ''1. '' @ cross_mark @ js '' Road closed''"

definition no_route :: jsstring where
  "no_route = compass @ js '' Route'' @ [0xA] @ cross_mark @ js '' No route found''"








section \<open>The spoken summary: \<open>extractKeyInfoForSpeech\<close> of \<open>Dashboard.js\<close>\<close>

text \<open>
  \<open>text.toLowerCase()\<close> follows the case mapping of the Unicode tables of the engine. The
  function takes it as its first argument, and every statement below holds whatever it
  is; \<open>ascii_toLowerCase\<close> is what it does to a text without capitals outside ASCII.
\<close>

definition ascii_toLowerCase :: "jsstring \<Rightarrow> jsstring" where
  "ascii_toLowerCase s = map ascii_lower s"

text \<open>The rules are tried in order; the first that reaches a \<open>return\<close> gives the result.\<close>

fun first_return :: "jsstring option list \<Rightarrow> jsstring option" where
  "first_return [] = None"
| "first_return (Some r # rs) = Some r"
| "first_return (None # rs) = first_return rs"

subsection \<open>Rule 1, lines 64 to 69\<close>

text \<open>
  \<open>/(?:you are (?:in|at)|current location[:\s]+)([^.]+)/i\<close>, the group. After
  \<open>current location\<close> the run of colons and white space is greedy; when nothing but a
  dot or the end follows it, its last unit is given back to the group.
\<close>

definition not_dot_run :: "jsstring \<Rightarrow> jsstring option" where
  "not_dot_run s = (let g = takeWhile (\<lambda>c. c \<noteq> 0x2E) s in if g = [] then None else Some g)"

definition location_at :: "jsstring \<Rightarrow> jsstring option" where
  "location_at s =
     (case (if starts_with_ci s (js ''you are in'') \<or> starts_with_ci s (js ''you are at'')
            then not_dot_run (drop 10 s) else None) of
        Some g \<Rightarrow> Some g
      | None \<Rightarrow>
          if starts_with_ci s (js ''current location'')
          then (let sep = takeWhile (\<lambda>c. c = 0x3A \<or> is_ws c) (drop 16 s);
                    rest = dropWhile (\<lambda>c. c = 0x3A \<or> is_ws c) (drop 16 s)
                in if sep = [] then None
                   else (case not_dot_run rest of
                           Some g \<Rightarrow> Some g
                         | None \<Rightarrow> if length sep \<ge> 2 then Some [last sep] else None))
          else None)"

definition rule_location :: "jsstring \<Rightarrow> jsstring \<Rightarrow> jsstring option" where
  "rule_location cleanText text =
     (if js_includes cleanText (js ''your current location'') \<or> js_includes cleanText (js ''you are in'')
         \<or> js_includes cleanText (js ''you are at'')
      then (case first_at location_at text of
              Some g \<Rightarrow> Some (js ''You are in '' @ trim g)
            | None \<Rightarrow> None)
      else None)"

subsection \<open>Rule 2, lines 72 to 103\<close>

text \<open>
  \<open>/PIN\s*([^STAR(]+?)(?:\s*\(|\s*STAR|$)/g\<close>: after the pin and the white space,
  the shortest non-empty text without star and opening parenthesis that is followed by
  one of the three endings. \<open>name_closing\<close> is the text of the ending, \<open>name_lazy\<close> the
  text of the group and the ending, \<open>pin_match_at\<close> the whole match.
\<close>

definition name_closing :: "jsstring \<Rightarrow> jsstring option" where
  "name_closing s =
     (let w = takeWhile is_ws s; r = dropWhile is_ws s
      in if starts_with r [0x28] then Some (w @ [0x28])
         else if starts_with r [star] then Some (w @ [star])
         else if s = [] then Some []
         else None)"

fun name_lazy :: "jsstring \<Rightarrow> jsstring option" where
  "name_lazy [] = None"
| "name_lazy (c # cs) =
     (if c = star \<or> c = 0x28 then None
      else (case name_closing cs of
              Some e \<Rightarrow> Some (c # e)
            | None \<Rightarrow> map_option ((#) c) (name_lazy cs)))"

definition pin_match_at :: "jsstring \<Rightarrow> jsstring option" where
  "pin_match_at s =
     (if starts_with s pin
      then map_option (\<lambda>(w, m). pin @ w @ m) (ws_star_then name_lazy (drop (length pin) s))
      else None)"

text \<open>
  \<open>text.match(re)\<close> with the \<open>g\<close> flag: all matches from the left, each search starting
  where the previous match ended (one unit further after an empty match).
\<close>

function match_all :: "(jsstring \<Rightarrow> jsstring option) \<Rightarrow> jsstring \<Rightarrow> jsstring list" where
  "match_all m [] = (case m [] of Some x \<Rightarrow> [x] | None \<Rightarrow> [])"
| "match_all m (c # cs) =
     (case m (c # cs) of
        Some x \<Rightarrow> x # match_all m (drop (max 1 (length x)) (c # cs))
      | None \<Rightarrow> match_all m cs)"
  by pat_completeness auto
termination
  by (relation "measure (\<lambda>(m, s). length s)") auto

text \<open>
  \<open>match.replace(/PIN\s*/, '').replace(/\s*\($/, '').trim()\<close>: the first pin goes with
  the white space after it, then an opening parenthesis at the very end goes with the
  white space before it.
\<close>

definition remove_pin :: "jsstring \<Rightarrow> jsstring" where
  "remove_pin s =
     (case indexOf s pin of
        None \<Rightarrow> s
      | Some i \<Rightarrow> take i s @ dropWhile is_ws (drop (i + length pin) s))"

definition remove_paren_end :: "jsstring \<Rightarrow> jsstring" where
  "remove_paren_end s =
     (case rev s of
        [] \<Rightarrow> s
      | c # r \<Rightarrow> if c = 0x28 then rev (dropWhile is_ws r) else s)"

text \<open>
  The count announced is printed as matched. Only the number of further options goes
  through \<open>parseInt\<close>; for an announced count above \<open>2^53\<close> the code prints a rounded
  double there, and the model is the code only up to that count. Whether the rule
  returns, and how its text starts, does not depend on it.
\<close>

definition rule_places :: "jsstring \<Rightarrow> jsstring \<Rightarrow> jsstring option" where
  "rule_places cleanText text =
     (if js_includes cleanText (js ''found'') \<and> js_includes cleanText (js ''near'')
      then (case foundMatch text of
              None \<Rightarrow> None
            | Some (count', g2) \<Rightarrow>
                (let placeType = trim g2;
                     placeMatches = match_all pin_match_at text
                 in if placeMatches \<noteq> []
                    then (let places = take 3 (map (\<lambda>m. trim (remove_paren_end (remove_pin m)))
                                                placeMatches);
                              response = js ''I found '' @ count' @ js '' '' @ placeType
                                           @ js '' near you. ''
                          in Some
                              (if length places = 1
                               then response @ js ''Including '' @ places ! 0 @ js ''.''
                               else if length places = 2
                               then response @ js ''Including '' @ places ! 0 @ js '' and ''
                                      @ places ! 1 @ js ''.''
                               else response @ js ''Including '' @ places ! 0 @ js '', ''
                                      @ places ! 1 @ js '', and '' @ places ! 2
                                      @ (if parseInt count' > 3
                                         then js '', plus '' @ show_nat (parseInt count' - 3)
                                                @ js '' more options.''
                                         else js ''.'')))
                    else None))
      else None)"

subsection \<open>Rule 3, lines 106 to 127\<close>

definition rule_navigation :: "jsstring \<Rightarrow> jsstring \<Rightarrow> jsstring option" where
  "rule_navigation cleanText text =
     (if js_includes cleanText (js ''distance:'') \<and> js_includes cleanText (js ''duration:'')
      then (let lines = nonblank_lines text;
                distanceLine = find (\<lambda>line. js_includes line (js ''Distance:'')) lines;
                durationLine = find (\<lambda>line. js_includes line (js ''Duration:'')) lines;
                destinationLine =
                  find (\<lambda>line. js_includes line pin \<and> \<not> js_includes line (js ''Distance'')
                          \<and> \<not> js_includes line (js ''Duration'')) lines;
                response1 = (case destinationLine of
                               Some l \<Rightarrow> js ''Navigation to '' @ trim (remove_all [pin] l) @ js ''. ''
                             | None \<Rightarrow> []);
                response2 = (case distanceLine of
                               Some l \<Rightarrow> response1 @ trim (remove_all [ruler] l) @ js ''. ''
                             | None \<Rightarrow> response1);
                response3 = (case durationLine of
                               Some l \<Rightarrow> response2 @ trim (remove_all [stopwatch] l) @ js ''.''
                             | None \<Rightarrow> response2)
            in Some (if response3 = [] then js ''Navigation route calculated.'' else response3))
      else None)"

subsection \<open>Rule 4, lines 130 to 166\<close>

definition rule_temperature :: "jsstring \<Rightarrow> jsstring option" where
  "rule_temperature cleanText =
     (if js_includes cleanText (js ''temperature'')
         \<and> (js_includes cleanText (js ''set'') \<or> js_includes cleanText (js ''adjust''))
      then Some (js ''Temperature adjusted.'') else None)"

definition rule_ac :: "jsstring \<Rightarrow> jsstring option" where
  "rule_ac cleanText =
     (if js_includes cleanText (js ''air conditioning'') \<or> js_includes cleanText (js ''ac'')
      then (if js_includes cleanText (js ''turned on'') \<or> js_includes cleanText (js ''enabled'')
            then Some (js ''Air conditioning turned on.'')
            else if js_includes cleanText (js ''turned off'') \<or> js_includes cleanText (js ''disabled'')
            then Some (js ''Air conditioning turned off.'')
            else None)
      else None)"

definition rule_music :: "jsstring \<Rightarrow> jsstring option" where
  "rule_music cleanText =
     (if js_includes cleanText (js ''music'') \<or> js_includes cleanText (js ''song'')
      then (if js_includes cleanText (js ''playing'') \<or> js_includes cleanText (js ''started'')
            then Some (js ''Music started.'')
            else if js_includes cleanText (js ''paused'') \<or> js_includes cleanText (js ''stopped'')
            then Some (js ''Music paused.'')
            else if js_includes cleanText (js ''volume'')
            then Some (js ''Volume adjusted.'')
            else None)
      else None)"

definition rule_doors :: "jsstring \<Rightarrow> jsstring option" where
  "rule_doors cleanText =
     (if js_includes cleanText (js ''doors'') \<or> js_includes cleanText (js ''lock'')
      then (if js_includes cleanText (js ''locked'')
            then Some (js ''Doors locked.'')
            else if js_includes cleanText (js ''unlocked'')
            then Some (js ''Doors unlocked.'')
            else None)
      else None)"

definition rule_lights :: "jsstring \<Rightarrow> jsstring option" where
  "rule_lights cleanText =
     (if js_includes cleanText (js ''lights'')
      then (if js_includes cleanText (js ''turned on'') \<or> js_includes cleanText (js ''enabled'')
            then Some (js ''Lights turned on.'')
            else if js_includes cleanText (js ''turned off'') \<or> js_includes cleanText (js ''disabled'')
            then Some (js ''Lights turned off.'')
            else None)
      else None)"

subsection \<open>Rule 5, lines 169 to 184\<close>

definition rule_weather :: "jsstring \<Rightarrow> jsstring \<Rightarrow> jsstring option" where
  "rule_weather cleanText text =
     (if js_includes cleanText (js ''weather'') \<or> js_includes cleanText (js ''temperature'')
      then (let lines = nonblank_lines text;
                tempLine = find (\<lambda>line. js_includes line degree_sign
                                   \<or> js_includes line (js ''degrees'')) lines;
                conditionLine = find (\<lambda>line. js_includes line (js ''Condition:'')
                                        \<or> js_includes line (js ''Weather:'')) lines;
                response1 = (case tempLine of
                               Some l \<Rightarrow> trim (remove_all [sun_cloud, js ''Temperature:'', thermometer] l)
                             | None \<Rightarrow> []);
                response2 = (case conditionLine of
                               Some l \<Rightarrow>
                                 (let condition = trim (remove_all [js ''Condition:'', js ''Weather:'',
                                                                    sun_cloud] l)
                                  in if response1 \<noteq> [] then response1 @ js '' with '' @ condition
                                     else condition)
                             | None \<Rightarrow> response1)
            in Some (if response2 = [] then js ''Weather information retrieved.'' else response2))
      else None)"

subsection \<open>Rule 6, lines 187 to 189\<close>

definition rule_error :: "jsstring \<Rightarrow> jsstring option" where
  "rule_error cleanText =
     (if js_includes cleanText (js ''sorry'') \<or> js_includes cleanText (js ''error'')
         \<or> js_includes cleanText (js ''issue'')
      then Some (js ''Sorry, I encountered an issue. Please try again.'') else None)"

subsection \<open>Rule 7 and the fallback, lines 192 to 208\<close>

definition is_punct :: "nat \<Rightarrow> bool" where
  "is_punct c \<longleftrightarrow> c = 0x2E \<or> c = 0x21 \<or> c = 0x3F"

text \<open>\<open>text.split(/[.!?]+/)\<close>: a cut at every run of the three marks.\<close>

function split_sentences :: "jsstring \<Rightarrow> jsstring list" where
  "split_sentences [] = [[]]"
| "split_sentences (c # cs) =
     (if is_punct c then [] # split_sentences (dropWhile is_punct cs)
      else (case split_sentences cs of [] \<Rightarrow> [[c]] | l # ls \<Rightarrow> (c # l) # ls))"
  by pat_completeness auto
termination
  by (relation "measure length") (auto simp: length_dropWhile_le less_Suc_eq_le)

definition sentences_of :: "jsstring \<Rightarrow> jsstring list" where
  "sentences_of text = filter (\<lambda>s. length (trim s) > 0) (split_sentences text)"

text \<open>
  The emoji expression has the \<open>u\<close> flag, so it works on code points: a surrogate pair is
  one character, removed when its code point lies in one of the three ranges.
\<close>

definition emoji_cp :: "nat \<Rightarrow> bool" where
  "emoji_cp cp \<longleftrightarrow>
     (0x1F300 \<le> cp \<and> cp \<le> 0x1F9FF) \<or> (0x2600 \<le> cp \<and> cp \<le> 0x26FF) \<or> (0x2700 \<le> cp \<and> cp \<le> 0x27BF)"

fun strip_emoji :: "jsstring \<Rightarrow> jsstring" where
  "strip_emoji [] = []"
| "strip_emoji [c] = (if emoji_cp c then [] else [c])"
| "strip_emoji (c # d # ds) =
     (if is_high_surrogate c \<and> is_low_surrogate d
      then (if emoji_cp (code_point c d) then strip_emoji ds else c # d # strip_emoji ds)
      else if emoji_cp c then strip_emoji (d # ds)
      else c # strip_emoji (d # ds))"

definition rule_general :: "jsstring \<Rightarrow> jsstring option" where
  "rule_general text =
     (let sentences = sentences_of text in
      if length sentences > 0
      then (let response = strip_emoji (trim (sentences ! 0))
            in Some (if length response < 50 \<and> length sentences > 1
                     then response @ js ''. '' @ trim (strip_emoji (sentences ! 1))
                     else response))
      else None)"

definition extractKeyInfoForSpeech :: "(jsstring \<Rightarrow> jsstring) \<Rightarrow> jsstring \<Rightarrow> jsstring" where
  "extractKeyInfoForSpeech toLowerCase text =
     (if text = [] \<or> length (trim text) = 0 then []
      else
        (let cleanText = toLowerCase text in
         case first_return
                [rule_location cleanText text,
                 rule_places cleanText text,
                 rule_navigation cleanText text,
                 rule_temperature cleanText,
                 rule_ac cleanText,
                 rule_music cleanText,
                 rule_doors cleanText,
                 rule_lights cleanText,
                 rule_weather cleanText text,
                 rule_error cleanText,
                 rule_general text] of
           Some r \<Rightarrow> r
         | None \<Rightarrow> js ''Task completed.''))"

section \<open>Properties of the string operations\<close>

text \<open>What \<open>includes\<close>, \<open>trim\<close> and \<open>split\<close> keep of the code units of a string.\<close>

lemma starts_with_append: "starts_with s p \<Longrightarrow> \<exists>r. s = p @ r"
  by (induction s p rule: starts_with.induct) auto

lemma indexOf_Some: "indexOf s p = Some i \<Longrightarrow> \<exists>r. drop i s = p @ r"
proof (induction s arbitrary: i)
  case Nil
  then show ?case by (simp split: if_splits)
next
  case (Cons c cs)
  show ?case
  proof (cases "starts_with (c # cs) p")
    case True
    with Cons.prems have "i = 0" by simp
    with True starts_with_append show ?thesis by simp
  next
    case False
    with Cons.prems obtain j where "indexOf cs p = Some j" "i = Suc j" by auto
    with Cons.IH show ?thesis by simp
  qed
qed

lemma js_includes_subset: "js_includes s p \<Longrightarrow> set p \<subseteq> set s"
proof -
  assume "js_includes s p"
  then obtain i where "indexOf s p = Some i" by (auto simp: js_includes_def)
  then have "\<exists>r. drop i s = p @ r" by (rule indexOf_Some)
  then obtain r where "drop i s = p @ r" ..
  then have "set p \<subseteq> set (drop i s)" by simp
  also have "\<dots> \<subseteq> set s" by (rule set_drop_subset)
  finally show ?thesis .
qed

lemma trim_subset: "set (trim s) \<subseteq> set s"
proof -
  have "set (trim s) \<subseteq> set (dropWhile is_ws s)"
    unfolding trim_def by (auto dest: set_dropWhileD)
  also have "\<dots> \<subseteq> set s" by (auto dest: set_dropWhileD)
  finally show ?thesis .
qed

lemma dropWhile_Nil_iff: "dropWhile P xs = [] \<longleftrightarrow> (\<forall>x \<in> set xs. P x)"
  by (induction xs) auto

lemma trim_Nil_iff: "trim s = [] \<longleftrightarrow> (\<forall>c \<in> set s. is_ws c)"
proof
  assume "trim s = []"
  then have a: "\<forall>c \<in> set (dropWhile is_ws s). is_ws c"
    by (simp add: trim_def dropWhile_Nil_iff)
  show "\<forall>c \<in> set s. is_ws c"
  proof (cases "dropWhile is_ws s")
    case Nil
    then show ?thesis by (simp add: dropWhile_Nil_iff)
  next
    case (Cons x xs)
    then have "\<not> is_ws x" using hd_dropWhile[of is_ws s] by simp
    with a Cons show ?thesis by simp
  qed
next
  assume "\<forall>c \<in> set s. is_ws c"
  then show "trim s = []" by (auto simp: trim_def dest: set_dropWhileD)
qed

lemma split_not_Nil: "split sep s \<noteq> []"
  by (induction s) (auto split: list.splits)

lemma split_pieces_subset: "l \<in> set (split sep s) \<Longrightarrow> set l \<subseteq> set s"
proof (induction s arbitrary: l)
  case Nil
  then show ?case by simp
next
  case (Cons c cs)
  obtain a as where sp: "split sep cs = a # as"
    using split_not_Nil[of sep cs] by (cases "split sep cs") auto
  have a: "set a \<subseteq> set cs" and as: "\<And>x. x \<in> set as \<Longrightarrow> set x \<subseteq> set cs"
    using Cons.IH sp by auto
  show ?case
  proof (cases "c = sep")
    case True
    with Cons.prems sp have "l = [] \<or> l = a \<or> l \<in> set as" by auto
    with a as show ?thesis by auto
  next
    case False
    with Cons.prems sp have "l = c # a \<or> l \<in> set as" by auto
    with a as show ?thesis by auto
  qed
qed



lemma nonblank_lines_subset: "l \<in> set (nonblank_lines s) \<Longrightarrow> set l \<subseteq> set s"
  by (auto simp: nonblank_lines_def dest: split_pieces_subset)





section \<open>Properties of the realtime connection\<close>

lemma drop_current_timers:
  assumes "cycle_inv n w" "n < 5"
  shows "timers (drop_current w) = [2000 * Suc n]"
  using assms
  by (auto simp: cycle_inv_def drop_current_def onclose_def Let_def split: option.splits)

lemma drop_current_step:
  assumes "cycle_inv n w" "n < 5"
  shows "cycle_inv (Suc n) (fire (Ev_timeout 0) (drop_current w))"
  using assms
  by (auto simp: cycle_inv_def drop_current_def onclose_def connect_def Let_def nth_append
      nth_list_update split: option.splits)

lemma drops_inv: "cycle_inv 0 w \<Longrightarrow> n \<le> 5 \<Longrightarrow> cycle_inv n (drops n w)"
proof (induction n)
  case 0
  then show ?case by simp
next
  case (Suc n)
  then have "cycle_inv n (drops n w)" "n < 5" by auto
  then show ?case using drop_current_step by simp
qed

lemma drop_current_exhausted:
  assumes "cycle_inv 5 w"
  shows "exhausted (drop_current w)"
  using assms
  by (auto simp: cycle_inv_def exhausted_def drop_current_def onclose_def Let_def nth_list_update
      split: option.splits)

lemma fire_exhausted:
  assumes "exhausted w" "e \<noteq> Call_connect"
  shows "exhausted (fire e w) \<and> length (sockets (fire e w)) = length (sockets w)"
  using assms
  by (cases e)
     (auto simp: exhausted_def disconnect_def send_def sock_close_def onclose_def onopen_def
        split: option.splits)

lemma run_exhausted:
  "exhausted w \<Longrightarrow> Call_connect \<notin> set es \<Longrightarrow>
     exhausted (run es w) \<and> length (sockets (run es w)) = length (sockets w)"
proof (induction es arbitrary: w)
  case Nil
  then show ?case by simp
next
  case (Cons e es)
  from Cons.prems have e: "e \<noteq> Call_connect" and es: "Call_connect \<notin> set es" by auto
  from fire_exhausted[OF Cons.prems(1) e] Cons.IH[OF _ es] show ?case by simp
qed

lemma connected_cycle_inv: "connected w \<Longrightarrow> quiet w \<Longrightarrow> cycle_inv 0 w"
proof -
  assume c: "connected w" and q: "quiet w"
  from c obtain s where s: "socket w = Some s" "s < length (sockets w)" "sockets w ! s = OPEN"
    by (auto simp: connected_def split: option.splits)
  from q s have "\<forall>i < length (sockets w). i \<noteq> s \<longrightarrow> sockets w ! i = CLOSED"
    by (auto simp: quiet_def list_all_iff)
  with c q s show ?thesis by (auto simp: connected_def quiet_def cycle_inv_def)
qed

text \<open>
  From every Connected state: \<open>disconnect()\<close> clears \<open>socket\<close> and \<open>isConnected\<close>, starts
  closing the socket and arms no timer itself; the close event of that socket then runs
  the close handler, which counts one reconnect attempt and schedules it 2000 ms later.
\<close>

lemma disconnect_then_close:
  assumes "connected w" "socket w = Some s"
  shows "socket (disconnect w) = None \<and> \<not> isConnected (disconnect w)
       \<and> sockets (disconnect w) ! s = CLOSING
       \<and> timers (disconnect w) = timers w
       \<and> timers (fire (Ev_close s) (disconnect w)) = timers w @ [2000]
       \<and> reconnectAttempts (fire (Ev_close s) (disconnect w)) = 1"
  using assms
  by (auto simp: connected_def disconnect_def sock_close_def onclose_def Let_def)

text \<open>
  C4: after an explicit \<open>disconnect()\<close> from the Connected state no reconnect is ever
  scheduled. The code breaks this. \<open>disconnect\<close> leaves the close handler installed and
  keeps no record that the close was asked for, so the close event of the socket it has
  just closed runs \<open>onclose\<close> with the counter at zero: a timer of 2000 ms is armed; when
  it expires a new socket is constructed, and when that socket opens the client is
  connected again and announces the user a second time.
\<close>

theorem disconnect_is_undone:
  "connected (run [Call_connect, Ev_open 0] ws_constructor)
   \<and> socket (run [Call_connect, Ev_open 0, Call_disconnect] ws_constructor) = None
   \<and> timers (run [Call_connect, Ev_open 0, Call_disconnect] ws_constructor) = []
   \<and> timers (run [Call_connect, Ev_open 0, Call_disconnect, Ev_close 0] ws_constructor) = [2000]
   \<and> sockets (run [Call_connect, Ev_open 0, Call_disconnect, Ev_close 0, Ev_timeout 0]
        ws_constructor) = [CLOSED, CONNECTING]
   \<and> connected (run [Call_connect, Ev_open 0, Call_disconnect, Ev_close 0, Ev_timeout 0, Ev_open 1]
        ws_constructor)
   \<and> sent (run [Call_connect, Ev_open 0, Call_disconnect, Ev_close 0, Ev_timeout 0, Ev_open 1]
        ws_constructor) = [0, 1]"
  by (simp add: ws_constructor_def connect_def onopen_def send_def connected_def disconnect_def
      sock_close_def onclose_def)

theorem disconnect_is_undone_witness:
  "timers (run [Call_connect, Ev_open 0, Call_disconnect, Ev_close 0] ws_constructor) = [2000]"
  using disconnect_is_undone by (elim conjE)

text \<open>
  C5: after a connection that was open drops, and each reconnect attempt fails in turn, the
  close handler schedules the \<open>N\<close>-th attempt \<open>2000 * N\<close> ms ahead, for \<open>N\<close> from 1 to 5.
  When the fifth attempt has failed too, nothing is scheduled, and nothing will be by any
  later event, unless \<open>connect\<close> is called.
\<close>

theorem reconnect_backoff:
  assumes "connected w" "quiet w"
  shows "(\<forall>N \<in> {1..5}. timers (drop_current (drops (N - 1) w)) = [2000 * N])
       \<and> (\<forall>es. Call_connect \<notin> set es \<longrightarrow>
             timers (run es (drop_current (drops 5 w))) = []
           \<and> length (sockets (run es (drop_current (drops 5 w)))) = length (sockets (drops 5 w)))"
proof (intro conjI ballI allI impI)
  have c0: "cycle_inv 0 w" using assms by (rule connected_cycle_inv)
  { fix N :: nat
    assume "N \<in> {1..5}"
    then have "N - 1 < 5" "Suc (N - 1) = N" by auto
    with drops_inv[OF c0, of "N - 1"] drop_current_timers[of "N - 1" "drops (N - 1) w"]
    show "timers (drop_current (drops (N - 1) w)) = [2000 * N]" by simp }
  have ex: "exhausted (drop_current (drops 5 w))"
    using drops_inv[OF c0, of 5] by (simp add: drop_current_exhausted)
  have len: "length (sockets (drop_current (drops 5 w))) = length (sockets (drops 5 w))"
    by (simp add: drop_current_def onclose_def Let_def split: option.splits)
  { fix es
    assume "Call_connect \<notin> set es"
    from run_exhausted[OF ex this]
    show "timers (run es (drop_current (drops 5 w))) = []"
      and "length (sockets (run es (drop_current (drops 5 w)))) = length (sockets (drops 5 w))"
      using len by (simp_all add: exhausted_def) }
qed

theorem reconnect_backoff_witness:
  "connected (run [Call_connect, Ev_open 0] ws_constructor)
   \<and> quiet (run [Call_connect, Ev_open 0] ws_constructor)
   \<and> timers (drop_current (drops 4 (run [Call_connect, Ev_open 0] ws_constructor))) = [10000]
   \<and> timers (run [Ev_close 5, Ev_timeout 0, Call_disconnect, Ev_open 5]
        (drop_current (drops 5 (run [Call_connect, Ev_open 0] ws_constructor)))) = []"
proof -
  let ?w = "run [Call_connect, Ev_open 0] ws_constructor"
  have c: "connected ?w"
    by (simp add: ws_constructor_def connect_def onopen_def send_def connected_def)
  have q: "quiet ?w"
    by (simp add: ws_constructor_def connect_def onopen_def send_def quiet_def)
  from reconnect_backoff[OF c q] have
    a: "\<forall>N \<in> {1..5}. timers (drop_current (drops (N - 1) ?w)) = [2000 * N]" and
    b: "\<forall>es. Call_connect \<notin> set es \<longrightarrow>
             timers (run es (drop_current (drops 5 ?w))) = []" by blast+
  from a have "timers (drop_current (drops (5 - 1) ?w)) = [2000 * 5]" by (rule bspec) simp
  then have t5: "timers (drop_current (drops 4 ?w)) = [10000]"
    by (simp del: run.simps drops.simps)
  have "Call_connect \<notin> set [Ev_close 5, Ev_timeout 0, Call_disconnect, Ev_open 5]" by simp
  from b[rule_format, OF this] t5 c q show ?thesis by blast
qed

section \<open>Properties of the session reconstruction\<close>

lemma sessions_of_sorted:
  assumes "a < length st" "st ! a \<noteq> []"
  shows "fst (groupInteractionsBySessions h st (Some a)) = rev (loop h [] 0 (sort_key timestamp (st ! a)))"
  using assms by (simp add: groupInteractionsBySessions_def Let_def nth_append)

text \<open>
  C6, as stated: any two orderings of the same interactions give the same sessions. The
  sort is stable, so two interactions with equal timestamps keep the order in which the
  caller passed them, and the messages of the session come out in that order.
\<close>

theorem same_timestamp_order_counterexample:
  "mset [ia_first, ia_second] = mset [ia_second, ia_first]
   \<and> map (\<lambda>s. map msg_content (interactions s))
        (fst (groupInteractionsBySessions (utc_host 5000) [[ia_first, ia_second]] (Some 0)))
       = [[js ''lock the doors'', js ''Doors locked.'', js ''play music'']]
   \<and> map (\<lambda>s. map msg_content (interactions s))
        (fst (groupInteractionsBySessions (utc_host 5000) [[ia_second, ia_first]] (Some 0)))
       = [[js ''play music'', js ''lock the doors'', js ''Doors locked.'']]"
  by (simp add: groupInteractionsBySessions_def ia_first_def ia_second_def loop_body_def Let_def
      new_session_def utc_host_def nonblank_def trim_def is_ws_def js_def push_message_def
      user_message_def assistant_message_def)

text \<open>
  C6, amended: when no two different interactions of the input carry the same timestamp,
  any two orderings of the same interactions produce the same session list (for the same
  readings of the clock and of the random source, which only enter the identifiers and
  the display labels).
\<close>

theorem reconstruct_permutation_invariant:
  assumes "a < length st" "b < length st"
    and "mset (st ! a) = mset (st ! b)"
    and "inj_on timestamp (set (st ! a))"
  shows "fst (groupInteractionsBySessions h st (Some a))
       = fst (groupInteractionsBySessions h st (Some b))"
proof (cases "st ! a = []")
  case True
  with assms(3) have "st ! b = []" by auto
  with True show ?thesis by (simp add: groupInteractionsBySessions_def)
next
  case False
  with assms(3) have nb: "st ! b \<noteq> []" by auto
  have "sort_key timestamp (st ! a) = sort_key timestamp (st ! b)"
    using assms(3,4) by (rule sort_key_eq_sort_key)
  then show ?thesis
    using sessions_of_sorted[OF assms(1) False, of h] sessions_of_sorted[OF assms(2) nb, of h] by simp
qed

theorem reconstruct_permutation_invariant_witness:
  "(0::nat) < length [[ia_first, ia_later], [ia_later, ia_first]]
   \<and> (1::nat) < length [[ia_first, ia_later], [ia_later, ia_first]]
   \<and> mset ([[ia_first, ia_later], [ia_later, ia_first]] ! 0) = mset ([[ia_first, ia_later], [ia_later, ia_first]] ! 1)
   \<and> inj_on timestamp (set ([[ia_first, ia_later], [ia_later, ia_first]] ! 0))
   \<and> fst (groupInteractionsBySessions (utc_host 5000) [[ia_first, ia_later], [ia_later, ia_first]] (Some 0))
     = fst (groupInteractionsBySessions (utc_host 5000) [[ia_first, ia_later], [ia_later, ia_first]] (Some 1))"
proof -
  let ?st = "[[ia_first, ia_later], [ia_later, ia_first]]"
  have 1: "(0::nat) < length ?st" and 2: "(1::nat) < length ?st" by simp_all
  have 3: "mset (?st ! 0) = mset (?st ! 1)" by simp
  have 4: "inj_on timestamp (set (?st ! 0))" by (simp add: ia_first_def ia_later_def)
  from reconstruct_permutation_invariant[OF 1 2 3 4, of "utc_host 5000"] 1 2 3 4
  show ?thesis by blast
qed

text \<open>
  C9: the call does not change the array it is given, nor any other array that existed
  before the call; the sorted copy is a new array of the store.
\<close>

theorem reconstruct_keeps_argument:
  assumes "a < length st"
  shows "snd (groupInteractionsBySessions h st (Some a)) ! a = st ! a
       \<and> take (length st) (snd (groupInteractionsBySessions h st (Some a))) = st"
  using assms by (simp add: groupInteractionsBySessions_def Let_def nth_append)

theorem reconstruct_keeps_argument_witness:
  "(0::nat) < length [[ia_later, ia_first]]
   \<and> snd (groupInteractionsBySessions (utc_host 5000) [[ia_later, ia_first]] (Some 0)) ! 0 = [ia_later, ia_first]
   \<and> snd (groupInteractionsBySessions (utc_host 5000) [[ia_later, ia_first]] (Some 0)) = [[ia_later, ia_first], [ia_first, ia_later]]"
proof -
  have 1: "(0::nat) < length [[ia_later, ia_first]]" by simp
  have "snd (groupInteractionsBySessions (utc_host 5000) [[ia_later, ia_first]] (Some 0)) = [[ia_later, ia_first], [ia_first, ia_later]]"
    by (simp add: groupInteractionsBySessions_def Let_def ia_later_def ia_first_def)
  with reconstruct_keeps_argument[OF 1, of "utc_host 5000"] 1 show ?thesis by simp
qed

text \<open>
  C7, as stated: the label is "Today" exactly when the session starts on the calendar day
  of "now". The code counts whole periods of 24 hours between the two instants instead: a
  session that started at 23:00 is still "Today" at 01:00 of the next day.
\<close>

theorem today_not_calendar_day_counterexample:
  "formatSessionDate utc_year 90000000 82800000 = Today \<and> utc_day 82800000 \<noteq> utc_day 90000000"
  by (simp add: formatSessionDate_def utc_day_def)



text \<open>The number of whole days in a time difference.\<close>

lemma day_div_eq_iff:
  fixes x k :: int
  shows "x div 86400000 = k \<longleftrightarrow> k * 86400000 \<le> x \<and> x < (k + 1) * 86400000"
proof -
  define q r where "q = x div 86400000" and "r = x mod 86400000"
  have "x = 86400000 * q + r" "0 \<le> r" "r < 86400000"
    unfolding q_def r_def by simp_all
  then have "q = k \<longleftrightarrow> k * 86400000 \<le> x \<and> x < (k + 1) * 86400000"
  proof (cases q k rule: linorder_cases)
    case less
    then have "86400000 * (q + 1) \<le> 86400000 * k" by simp
    with less \<open>x = 86400000 * q + r\<close> \<open>r < 86400000\<close> show ?thesis by (simp add: algebra_simps)
  next
    case equal
    with \<open>x = 86400000 * q + r\<close> \<open>0 \<le> r\<close> \<open>r < 86400000\<close> show ?thesis by (simp add: algebra_simps)
  next
    case greater
    then have "86400000 * (k + 1) \<le> 86400000 * q" by simp
    with greater \<open>x = 86400000 * q + r\<close> \<open>0 \<le> r\<close> show ?thesis by (simp add: algebra_simps)
  qed
  then show ?thesis unfolding q_def .
qed

text \<open>
  C7, amended: with \<open>N\<close> the number of whole 24-hour periods from the start to "now"
  (rounded down), and the two instants within \<open>2^53\<close> ms of each other, the label is
  "Today" exactly when \<open>N = 0\<close>, that is when the start lies less than 24 hours back,
  "Yesterday" exactly when \<open>N = 1\<close>, "\<open>N\<close> days ago" exactly for every other \<open>N\<close> below
  7, and from 7 days on the month and day of the start, with the year exactly when the
  start's year differs from the current year.
\<close>

theorem formatSessionDate_cases:
  assumes "exact_range (now - d)"
  shows "(formatSessionDate year now d = Today \<longleftrightarrow> 0 \<le> now - d \<and> now - d < 86400000)
 \<and> (formatSessionDate year now d = Yesterday \<longleftrightarrow> 86400000 \<le> now - d \<and> now - d < 2 * 86400000)
 \<and> (formatSessionDate year now d = Days_ago n \<longleftrightarrow>
       n = (now - d) div 86400000 \<and> n < 7 \<and> n \<noteq> 0 \<and> n \<noteq> 1)
 \<and> (7 * 86400000 \<le> now - d \<longrightarrow>
       formatSessionDate year now d = (if year d \<noteq> year now then Month_day_year d else Month_day d))"
proof -
  define q where "q = (now - d) div 86400000"
  have q0: "q = 0 \<longleftrightarrow> 0 \<le> now - d \<and> now - d < 86400000"
    unfolding q_def by (simp add: day_div_eq_iff)
  have q1: "q = 1 \<longleftrightarrow> 86400000 \<le> now - d \<and> now - d < 2 * 86400000"
    unfolding q_def by (simp add: day_div_eq_iff)
  have q7: "7 * 86400000 \<le> now - d \<Longrightarrow> 7 \<le> q"
    unfolding q_def by linarith
  have f: "formatSessionDate year now d =
      (if q = 0 then Today else if q = 1 then Yesterday else if q < 7 then Days_ago q
       else if year d \<noteq> year now then Month_day_year d else Month_day d)"
    by (simp add: formatSessionDate_def q_def Let_def)
  show ?thesis
    unfolding f q_def[symmetric] using q0 q1 q7 by (auto)
qed

theorem formatSessionDate_cases_witness:
  "exact_range (1798761600000 - 1798070400000)
   \<and> 7 * 86400000 \<le> (1798761600000::int) - 1798070400000
   \<and> formatSessionDate utc_year 1798761600000 1798070400000 = Month_day_year 1798070400000
   \<and> formatSessionDate utc_year 1798761600000 1798761599000 = Today"
proof -
  have y: "utc_year 1798070400000 \<noteq> utc_year 1798761600000"
    by code_simp
  have h: "7 * 86400000 \<le> (1798761600000::int) - 1798070400000" by simp
  have e1: "exact_range (1798761600000 - 1798070400000)" by (simp add: exact_range_def)
  have e2: "exact_range (1798761600000 - 1798761599000)" by (simp add: exact_range_def)
  note c1 = formatSessionDate_cases[OF e1, of utc_year 0]
  from c1 have "7 * 86400000 \<le> (1798761600000::int) - 1798070400000 \<longrightarrow>
      formatSessionDate utc_year 1798761600000 1798070400000 =
      (if utc_year 1798070400000 \<noteq> utc_year 1798761600000
       then Month_day_year 1798070400000 else Month_day 1798070400000)"
    by (elim conjE)
  with h y
  have a: "formatSessionDate utc_year 1798761600000 1798070400000 = Month_day_year 1798070400000"
    by (simp del: mult_numeral_left_semiring_numeral)
  note c2 = formatSessionDate_cases[OF e2, of utc_year 0]
  from c2 have "formatSessionDate utc_year 1798761600000 1798761599000 = Today \<longleftrightarrow>
      0 \<le> (1798761600000::int) - 1798761599000 \<and> (1798761600000::int) - 1798761599000 < 86400000"
    by (elim conjE)
  then have b: "formatSessionDate utc_year 1798761600000 1798761599000 = Today"
    by simp
  from a b h e1 show ?thesis by blast
qed

section \<open>Properties of the response classification\<close>

lemmas glyph_defs = pin_def star_def green_circle_def red_circle_def postbox_def clipboard_def
  compass_def magnifier_def cross_mark_def ruler_def stopwatch_def globe_def utf16_def js_def

lemmas char_defs = is_ws_def is_digit_def is_line_terminator_def ascii_lower_def

lemmas place_defs = formatPlaceSearchResponse_def nonblank_lines_def trim_def replace_first_def
  foundMatch_def found_at_def found_closing_def numberedMatch_def is_step_def dot_plus_def
  parse_entry_def entry_fields_def paren_at_def star_rating_at_def rating_number_def address_at_def
  before_first_def after_first_def unwanted_def encodeURIComponent_def uri_unreserved_def
  is_low_surrogate_def is_high_surrogate_def escape_def pct_def utf8_def hex_digit_def
  js_includes_def Let_def

text \<open>
  C1: \<open>formatResponse\<close> turns the three-line example into a place-search result with
  count 3, category "restaurants" and the two entries. The code breaks this. The text
  passes the dispatcher's own test for a place search, and the place-search parser does
  return that result for it; but the text holds a pin and has no more than three lines,
  the test for a location comes first, and so only the header is shown, as a location.
\<close>

theorem cafes_shown_as_location:
  "formatResponse cafes = Inr (Location_response (js ''Found 3 restaurants near you (sample)''))
   \<and> first_at found_near_at cafes = Some ()
   \<and> js_includes cafes pin \<and> length (split 0xA cafes) = 3
   \<and> formatPlaceSearchResponse cafes = Inr cafes_places"
  by (simp add: cafes_def cafes_places_def formatResponse_def found_near_at_def
      formatLocationResponse_def glyph_defs char_defs place_defs)

theorem cafes_shown_as_location_witness:
  "formatResponse cafes = Inr (Location_response (js ''Found 3 restaurants near you (sample)''))"
  using cafes_shown_as_location by (elim conjE)

text \<open>With one more line (an empty line after the header) the same text is parsed.\<close>

lemma cafes_spaced_place_search: "formatResponse cafes_spaced = Inr cafes_places"
  by (simp add: cafes_spaced_def cafes_places_def formatResponse_def found_near_at_def
      glyph_defs char_defs place_defs)

text \<open>
  C3, as stated: every text sent to the directions parser that has a line with the cross
  mark gives the error result. A line is tested for the cross mark only after the tests
  for destination, distance, duration, maps link and numbered step have failed; a
  numbered step that mentions the cross mark is a step like any other.
\<close>

theorem step_with_cross_mark_counterexample:
  "directions_selected closed_road
   \<and> js_includes (nonblank_lines closed_road ! 2) cross_mark
   \<and> formatResponse closed_road =
       Inr (Directions_response (js ''Home'') [] []
              [(js ''1'', cross_mark @ js '' Road closed'')] [])"
  by (simp add: closed_road_def directions_selected_def formatResponse_def
      formatDirectionsResponse_def directions_body_def dir_line_def dir_init_def render_step_def
      numberedMatch_def is_step_def dot_plus_def https_url_at_def enumerate_eq_zip
      nonblank_lines_def trim_def replace_first_def js_includes_def Let_def glyph_defs char_defs)

lemma dir_line_hasError: "hasError st \<Longrightarrow> hasError (dir_line st line)"
  by (simp add: dir_line_def Let_def split: option.splits)

lemma dir_line_error_line: "error_line line \<Longrightarrow> hasError (dir_line st line)"
  by (simp add: dir_line_def error_line_def Let_def)

lemma foldl_hasError: "hasError st \<Longrightarrow> hasError (foldl dir_line st ls)"
  by (induction ls arbitrary: st) (simp_all add: dir_line_hasError)

lemma foldl_error_line:
  "\<exists>line \<in> set ls. error_line line \<Longrightarrow> hasError (foldl dir_line st ls)"
proof (induction ls arbitrary: st)
  case Nil
  then show ?case by simp
next
  case (Cons l ls)
  show ?case
  proof (cases "error_line l")
    case True
    then show ?thesis by (simp add: dir_line_error_line foldl_hasError)
  next
    case False
    with Cons.prems have "\<exists>line \<in> set ls. error_line line" by simp
    then show ?thesis by (simp add: Cons.IH)
  qed
qed

lemma dir_line_destination:
  "\<not> destination_line line \<Longrightarrow> destination (dir_line st line) = destination st"
  by (simp add: dir_line_def destination_line_def Let_def split: option.splits)

lemma foldl_destination:
  "\<forall>line \<in> set ls. \<not> destination_line line \<Longrightarrow>
     destination (foldl dir_line st ls) = destination st"
  by (induction ls arbitrary: st) (simp_all add: dir_line_destination)

lemma js_includes_Nil: "js_includes [] pat \<longleftrightarrow> pat = []"
  by (simp add: js_includes_def)

lemma directions_selected_nonempty: "directions_selected content \<Longrightarrow> content \<noteq> []"
  by (auto simp: directions_selected_def js_includes_Nil js_def clipboard_def compass_def utf16_def)

text \<open>
  C3, amended: when the directions parser is selected and the text has a line with the
  cross mark that is not a destination, distance, duration, maps-link or numbered-step
  line, or has no destination line at all, the result is the error block carrying the
  original text unchanged. The parser itself cannot throw.
\<close>

theorem directions_error_result:
  assumes "directions_selected content"
    and "(\<exists>line \<in> set (nonblank_lines content). error_line line)
       \<or> (\<forall>line \<in> set (nonblank_lines content). \<not> destination_line line)"
  shows "formatResponse content = Inr (Error_response content)"
proof -
  let ?st = "foldl dir_line dir_init (nonblank_lines content)"
  from assms(2) have "hasError ?st \<or> destination ?st = []"
  proof
    assume "\<exists>line \<in> set (nonblank_lines content). error_line line"
    then show ?thesis by (simp add: foldl_error_line)
  next
    assume "\<forall>line \<in> set (nonblank_lines content). \<not> destination_line line"
    then have "destination ?st = destination dir_init" by (rule foldl_destination)
    then show ?thesis by (simp add: dir_init_def)
  qed
  then have "formatDirectionsResponse content = Error_response content"
    by (auto simp: formatDirectionsResponse_def directions_body_def Let_def)
  with assms(1) directions_selected_nonempty[OF assms(1)] show ?thesis
    by (simp add: formatResponse_def directions_selected_def)
qed

theorem directions_error_result_witness:
  "directions_selected no_route
   \<and> error_line (nonblank_lines no_route ! 1)
   \<and> formatResponse no_route = Inr (Error_response no_route)"
proof -
  have d: "directions_selected no_route"
    by (simp add: no_route_def directions_selected_def js_includes_def glyph_defs)
  have l: "nonblank_lines no_route = [compass @ js '' Route'', cross_mark @ js '' No route found'']"
    by (simp add: no_route_def nonblank_lines_def trim_def glyph_defs char_defs)
  have e: "error_line (cross_mark @ js '' No route found'')"
    by (simp add: error_line_def is_step_def trim_def js_includes_def glyph_defs char_defs)
  from l e have "(\<exists>line \<in> set (nonblank_lines no_route). error_line line)
       \<or> (\<forall>line \<in> set (nonblank_lines no_route). \<not> destination_line line)" by simp
  from directions_error_result[OF d this] d l e show ?thesis by simp
qed

section \<open>Exceptions in the place-search parser\<close>








section \<open>Totality of the classification\<close>













section \<open>Properties of the spoken summary\<close>

lemmas speech_rule_defs = rule_location_def rule_places_def rule_navigation_def rule_temperature_def
  rule_ac_def rule_music_def rule_doors_def rule_lights_def rule_weather_def rule_error_def
  rule_general_def

text \<open>
  C8, as stated: every text that contains "air conditioning" and "turned on" is summed up
  as "Air conditioning turned on.". The rule for the air conditioning is the fifth of the
  ladder; a text that also mentions a temperature being set stops at the fourth.
\<close>

theorem temperature_first_counterexample:
  "js_includes (ascii_toLowerCase (js ''Temperature set to 22 degrees. Air conditioning turned on.''))
     (js ''air conditioning'')
   \<and> js_includes (ascii_toLowerCase (js ''Temperature set to 22 degrees. Air conditioning turned on.''))
     (js ''turned on'')
   \<and> extractKeyInfoForSpeech ascii_toLowerCase
       (js ''Temperature set to 22 degrees. Air conditioning turned on.'')
     = js ''Temperature adjusted.''"
  by (simp add: extractKeyInfoForSpeech_def ascii_toLowerCase_def rule_location_def
      rule_places_def rule_navigation_def rule_temperature_def js_includes_def trim_def
      js_def char_defs)

text \<open>
  C8, amended: for every text that is not blank and for which none of the earlier rules
  returns (location, place search, navigation, temperature), if its lower-case form
  contains "air conditioning" and "turned on", the summary is exactly
  "Air conditioning turned on.".
\<close>

theorem air_conditioning_on:
  assumes "text \<noteq> []" "trim text \<noteq> []"
    and "rule_location (lc text) text = None"
    and "rule_places (lc text) text = None"
    and "rule_navigation (lc text) text = None"
    and "rule_temperature (lc text) = None"
    and "js_includes (lc text) (js ''air conditioning'')"
    and "js_includes (lc text) (js ''turned on'')"
  shows "extractKeyInfoForSpeech lc text = js ''Air conditioning turned on.''"
  using assms by (simp add: extractKeyInfoForSpeech_def rule_ac_def)

theorem air_conditioning_on_witness:
  "js ''Air conditioning turned on.'' \<noteq> []
   \<and> extractKeyInfoForSpeech ascii_toLowerCase (js ''Air conditioning turned on.'')
     = js ''Air conditioning turned on.''"
proof -
  let ?t = "js ''Air conditioning turned on.''"
  let ?c = "ascii_toLowerCase ?t"
  have c: "?c = js ''air conditioning turned on.''"
    by (simp add: ascii_toLowerCase_def js_def ascii_lower_def)
  have 1: "?t \<noteq> []" by (simp add: js_def)
  have 2: "trim ?t \<noteq> []" by (simp add: trim_def js_def is_ws_def)
  have 3: "rule_location ?c ?t = None"
    unfolding c by (simp add: rule_location_def js_includes_def js_def)
  have 4: "rule_places ?c ?t = None"
    unfolding c by (simp add: rule_places_def js_includes_def js_def)
  have 5: "rule_navigation ?c ?t = None"
    unfolding c by (simp add: rule_navigation_def js_includes_def js_def)
  have 6: "rule_temperature ?c = None"
    unfolding c by (simp add: rule_temperature_def js_includes_def js_def)
  have 7: "js_includes ?c (js ''air conditioning'')"
    unfolding c by (simp add: js_includes_def js_def)
  have 8: "js_includes ?c (js ''turned on'')"
    unfolding c by (simp add: js_includes_def js_def)
  from air_conditioning_on[of "?t" ascii_toLowerCase, OF 1 2 3 4 5 6 7 8] 1
  show ?thesis by simp
qed

subsection \<open>Where the fallback text can come from\<close>

lemma first_return_Some: "first_return rs = Some r \<Longrightarrow> Some r \<in> set rs"
  by (induction rs rule: first_return.induct) auto

lemma first_return_None: "first_return rs = None \<Longrightarrow> x \<in> set rs \<Longrightarrow> x = None"
  by (induction rs rule: first_return.induct) auto

lemma task_completed_units:
  "js ''Task completed.'' = js ''Task completed'' @ [0x2E]"
  "0x2E \<notin> set (js ''Task completed'')"
  "0x3A \<notin> set (js ''Task completed.'')"
  "hd (js ''Task completed.'') = 0x54"
  by (simp_all add: js_def)

lemma rule_location_not_fallback:
  "rule_location c t = Some r \<Longrightarrow> r \<noteq> js ''Task completed.''"
proof -
  assume "rule_location c t = Some r"
  then obtain g where "r = js ''You are in '' @ g"
    by (auto simp: rule_location_def split: if_splits option.splits)
  then have "hd r = 0x59" by (simp add: js_def)
  then show ?thesis using task_completed_units(4) by auto
qed

lemma rule_places_not_fallback:
  "rule_places c t = Some r \<Longrightarrow> r \<noteq> js ''Task completed.''"
proof -
  assume "rule_places c t = Some r"
  then obtain g where "r = js ''I found '' @ g"
    by (auto simp: rule_places_def Let_def split: if_splits option.splits)
  then have "hd r = 0x49" by (simp add: js_def)
  then show ?thesis using task_completed_units(4) by auto
qed


lemma remove_all_keeps:
  "c \<in> set s \<Longrightarrow> \<forall>p \<in> set pats. c \<notin> set p \<Longrightarrow> c \<in> set (remove_all pats s)"
proof (induction pats s rule: remove_all.induct)
  case (1 pats)
  then show ?case by simp
next
  case (2 pats x xs)
  show ?case
  proof (cases "find (\<lambda>p. p \<noteq> [] \<and> starts_with (x # xs) p) pats")
    case None
    with 2 show ?thesis by auto
  next
    case (Some p)
    then have p: "p \<in> set pats" "starts_with (x # xs) p"
      by (auto simp: find_Some_iff)
    then obtain r where r: "x # xs = p @ r" using starts_with_append by blast
    then have d: "drop (length p) (x # xs) = r" by (metis append_eq_conv_conj)
    from p(1) "2.prems" have "c \<notin> set p" by blast
    with "2.prems"(1) r have "c \<in> set r" by (metis Un_iff set_append)
    with d have "c \<in> set (drop (length p) (x # xs))" by simp
    with "2.IH"(2)[OF Some] "2.prems"(2) Some show ?thesis by simp
  qed
qed

lemma trim_keeps: "c \<in> set s \<Longrightarrow> \<not> is_ws c \<Longrightarrow> c \<in> set (trim s)"
proof -
  assume c: "c \<in> set s" "\<not> is_ws c"
  have k: "\<And>xs. c \<in> set xs \<Longrightarrow> c \<in> set (dropWhile is_ws xs)"
  proof -
    fix xs assume "c \<in> set xs"
    then show "c \<in> set (dropWhile is_ws xs)" using c(2) by (induction xs) auto
  qed
  from c(1) have "c \<in> set (rev (dropWhile is_ws s))" by (simp add: k)
  then have "c \<in> set (dropWhile is_ws (rev (dropWhile is_ws s)))" by (rule k)
  then show ?thesis by (simp add: trim_def)
qed

lemma colon_line:
  assumes "js_includes l (js ''Distance:'') \<or> js_includes l (js ''Duration:'')"
    and "0x3A \<notin> set g"
  shows "0x3A \<in> set (trim (remove_all [g] l))"
proof -
  have "0x3A \<in> set (js ''Distance:'')" "0x3A \<in> set (js ''Duration:'')" by (simp_all add: js_def)
  with assms(1) have "0x3A \<in> set l" using js_includes_subset by blast
  with assms(2) have "0x3A \<in> set (remove_all [g] l)" by (simp add: remove_all_keeps)
  moreover have "\<not> is_ws 0x3A" by (simp add: is_ws_def)
  ultimately show ?thesis by (rule trim_keeps)
qed

lemma find_Some_holds: "find P xs = Some x \<Longrightarrow> P x"
  by (auto simp: find_Some_iff)

lemma rule_navigation_not_fallback:
  assumes "rule_navigation c t = Some r"
  shows "r \<noteq> js ''Task completed.''"
proof -
  let ?lines = "nonblank_lines t"
  let ?dist = "find (\<lambda>line. js_includes line (js ''Distance:'')) ?lines"
  let ?dur = "find (\<lambda>line. js_includes line (js ''Duration:'')) ?lines"
  let ?dest = "find (\<lambda>line. js_includes line pin \<and> \<not> js_includes line (js ''Distance'')
                          \<and> \<not> js_includes line (js ''Duration'')) ?lines"
  have ruler: "0x3A \<notin> set ruler" and sw: "0x3A \<notin> set stopwatch"
    by (simp_all add: ruler_def stopwatch_def utf16_def)
  have "hd r = 0x4E \<or> 0x3A \<in> set r"
  proof (cases ?dest)
    case (Some l)
    with assms obtain g where "r = js ''Navigation to '' @ g"
      by (auto simp: rule_navigation_def Let_def split: if_splits option.splits)
    then show ?thesis by (simp add: js_def)
  next
    case nd: None
    show ?thesis
    proof (cases ?dist)
      case (Some l)
      then have "js_includes l (js ''Distance:'')" by (rule find_Some_holds)
      then have "0x3A \<in> set (trim (remove_all [ruler] l))" using ruler by (simp add: colon_line)
      moreover from assms nd Some obtain g where "r = trim (remove_all [ruler] l) @ g"
        by (auto simp: rule_navigation_def Let_def split: if_splits option.splits)
      ultimately show ?thesis by simp
    next
      case ndi: None
      show ?thesis
      proof (cases ?dur)
        case (Some l)
        then have "js_includes l (js ''Duration:'')" by (rule find_Some_holds)
        then have "0x3A \<in> set (trim (remove_all [stopwatch] l))" using sw by (simp add: colon_line)
        moreover from assms nd ndi Some obtain g where "r = trim (remove_all [stopwatch] l) @ g"
          by (auto simp: rule_navigation_def Let_def split: if_splits option.splits)
        ultimately show ?thesis by simp
      next
        case None
        with assms nd ndi have "r = js ''Navigation route calculated.''"
          by (auto simp: rule_navigation_def Let_def split: if_splits)
        then show ?thesis by (simp add: js_def)
      qed
    qed
  qed
  then show ?thesis using task_completed_units(3,4) by auto
qed

lemma fixed_rules_not_fallback:
  "rule_temperature c = Some r \<Longrightarrow> r \<noteq> js ''Task completed.''"
  "rule_ac c = Some r \<Longrightarrow> r \<noteq> js ''Task completed.''"
  "rule_music c = Some r \<Longrightarrow> r \<noteq> js ''Task completed.''"
  "rule_doors c = Some r \<Longrightarrow> r \<noteq> js ''Task completed.''"
  "rule_lights c = Some r \<Longrightarrow> r \<noteq> js ''Task completed.''"
  "rule_error c = Some r \<Longrightarrow> r \<noteq> js ''Task completed.''"
  by (auto simp: rule_temperature_def rule_ac_def rule_music_def rule_doors_def rule_lights_def
      rule_error_def js_def split: if_splits)


lemma split_sentences_not_Nil: "split_sentences s \<noteq> []"
  by (induction s rule: split_sentences.induct) (auto split: list.splits)

lemma split_sentences_no_punct:
  "p \<in> set (split_sentences s) \<Longrightarrow> c \<in> set p \<Longrightarrow> \<not> is_punct c"
proof (induction s arbitrary: p rule: split_sentences.induct)
  case 1
  then show ?case by simp
next
  case (2 x xs)
  show ?case
  proof (cases "is_punct x")
    case True
    with "2.prems" have "p \<in> set (split_sentences (dropWhile is_punct xs))" by auto
    with "2.IH"(1)[OF True] "2.prems"(2) show ?thesis by blast
  next
    case False
    obtain a as where sp: "split_sentences xs = a # as"
      using split_sentences_not_Nil[of xs] by (cases "split_sentences xs") auto
    with False "2.prems"(1) have "p = x # a \<or> p \<in> set as" by auto
    then show ?thesis
    proof
      assume "p = x # a"
      with "2.prems"(2) have "c = x \<or> c \<in> set a" by auto
      with False "2.IH"(2)[OF False, of a] sp show ?thesis by auto
    next
      assume "p \<in> set as"
      with "2.IH"(2)[OF False, of p] sp "2.prems"(2) show ?thesis by auto
    qed
  qed
qed

lemma strip_emoji_subset: "set (strip_emoji s) \<subseteq> set s"
  by (induction s rule: strip_emoji.induct) auto

lemma sentence_no_dot:
  assumes "i < length (sentences_of t)"
  shows "0x2E \<notin> set (strip_emoji (trim (sentences_of t ! i)))"
    and "0x2E \<notin> set (trim (strip_emoji (sentences_of t ! i)))"
proof -
  from assms have "sentences_of t ! i \<in> set (sentences_of t)" by (rule nth_mem)
  then have "sentences_of t ! i \<in> set (split_sentences t)" by (simp add: sentences_of_def)
  moreover have "is_punct 0x2E" by (simp add: is_punct_def)
  ultimately have n: "0x2E \<notin> set (sentences_of t ! i)"
    using split_sentences_no_punct by blast
  show "0x2E \<notin> set (strip_emoji (trim (sentences_of t ! i)))"
    using n strip_emoji_subset trim_subset by blast
  show "0x2E \<notin> set (trim (strip_emoji (sentences_of t ! i)))"
    using n strip_emoji_subset trim_subset by blast
qed

lemma rule_general_not_fallback:
  assumes "rule_general t = Some r"
  shows "r \<noteq> js ''Task completed.''"
proof -
  let ?a = "strip_emoji (trim (sentences_of t ! 0))"
  let ?b = "trim (strip_emoji (sentences_of t ! 1))"
  from assms have len: "0 < length (sentences_of t)"
    by (auto simp: rule_general_def Let_def split: if_splits)
  then have a: "0x2E \<notin> set ?a" by (rule sentence_no_dot(1))
  from assms len have "r = ?a \<or> (1 < length (sentences_of t) \<and> r = ?a @ js ''. '' @ ?b)"
    by (auto simp: rule_general_def Let_def split: if_splits)
  then show ?thesis
  proof
    assume "r = ?a"
    with a have "0x2E \<notin> set r" by simp
    moreover have "0x2E \<in> set (js ''Task completed.'')" by (simp add: js_def)
    ultimately show ?thesis by auto
  next
    assume b: "1 < length (sentences_of t) \<and> r = ?a @ js ''. '' @ ?b"
    show ?thesis
    proof
      assume "r = js ''Task completed.''"
      with b have "?a @ js ''. '' @ ?b = js ''Task completed.''" by simp
      moreover have "js ''. '' = [0x2E, 0x20]" by (simp add: js_def)
      ultimately have eq: "?a @ 0x2E # (0x20 # ?b) = js ''Task completed'' @ 0x2E # []"
        using task_completed_units(1) by simp
      from b have "0x2E \<notin> set ?b" by (simp add: sentence_no_dot(2))
      then have nb: "0x2E \<notin> set (0x20 # ?b)" by simp
      from append_Cons_eq_iff[OF a nb, THEN iffD1, OF eq]
      have "?a = js ''Task completed'' \<and> 0x20 # ?b = []" .
      then show False by simp
    qed
  qed
qed

lemma rule_general_None: "rule_general t = None \<Longrightarrow> sentences_of t = []"
  by (auto simp: rule_general_def Let_def split: if_splits)

lemma no_rule_fallback:
  "rule_location c t \<noteq> Some (js ''Task completed.'')"
  "rule_places c t \<noteq> Some (js ''Task completed.'')"
  "rule_navigation c t \<noteq> Some (js ''Task completed.'')"
  "rule_temperature c \<noteq> Some (js ''Task completed.'')"
  "rule_ac c \<noteq> Some (js ''Task completed.'')"
  "rule_music c \<noteq> Some (js ''Task completed.'')"
  "rule_doors c \<noteq> Some (js ''Task completed.'')"
  "rule_lights c \<noteq> Some (js ''Task completed.'')"
  "rule_error c \<noteq> Some (js ''Task completed.'')"
  "rule_general t \<noteq> Some (js ''Task completed.'')"
proof -
  show "rule_location c t \<noteq> Some (js ''Task completed.'')"
    using rule_location_not_fallback[of c t "js ''Task completed.''"] by blast
  show "rule_places c t \<noteq> Some (js ''Task completed.'')"
    using rule_places_not_fallback[of c t "js ''Task completed.''"] by blast
  show "rule_navigation c t \<noteq> Some (js ''Task completed.'')"
    using rule_navigation_not_fallback[of c t "js ''Task completed.''"] by blast
  show "rule_temperature c \<noteq> Some (js ''Task completed.'')"
    using fixed_rules_not_fallback(1)[of c "js ''Task completed.''"] by blast
  show "rule_ac c \<noteq> Some (js ''Task completed.'')"
    using fixed_rules_not_fallback(2)[of c "js ''Task completed.''"] by blast
  show "rule_music c \<noteq> Some (js ''Task completed.'')"
    using fixed_rules_not_fallback(3)[of c "js ''Task completed.''"] by blast
  show "rule_doors c \<noteq> Some (js ''Task completed.'')"
    using fixed_rules_not_fallback(4)[of c "js ''Task completed.''"] by blast
  show "rule_lights c \<noteq> Some (js ''Task completed.'')"
    using fixed_rules_not_fallback(5)[of c "js ''Task completed.''"] by blast
  show "rule_error c \<noteq> Some (js ''Task completed.'')"
    using fixed_rules_not_fallback(6)[of c "js ''Task completed.''"] by blast
  show "rule_general t \<noteq> Some (js ''Task completed.'')"
    using rule_general_not_fallback[of t "js ''Task completed.''"] by blast
qed

lemma speech_ladder:
  assumes "text \<noteq> []" "trim text \<noteq> []"
  shows "extractKeyInfoForSpeech lc text =
      (case first_return
                [rule_location (lc text) text, rule_places (lc text) text,
                 rule_navigation (lc text) text, rule_temperature (lc text), rule_ac (lc text),
                 rule_music (lc text), rule_doors (lc text), rule_lights (lc text),
                 rule_weather (lc text) text, rule_error (lc text), rule_general text] of
         Some r \<Rightarrow> r | None \<Rightarrow> js ''Task completed.'')"
proof -
  from assms have n: "\<not> (text = [] \<or> length (trim text) = 0)" by simp
  show ?thesis unfolding extractKeyInfoForSpeech_def Let_def by (simp only: n if_False)
qed

text \<open>
  C10, as stated: "Task completed." is returned only for a text that is not blank and
  yields no sentence. The weather rule returns the rest of a line that starts with
  "Weather:", whatever it is; so this text, which yields a sentence, is summed up as
  "Task completed." as well.
\<close>

theorem weather_echo_counterexample:
  "extractKeyInfoForSpeech ascii_toLowerCase (js ''Weather: Task completed.'')
     = js ''Task completed.''
   \<and> sentences_of (js ''Weather: Task completed.'') = [js ''Weather: Task completed'']"
proof -
  let ?t = "js ''Weather: Task completed.''"
  have c: "ascii_toLowerCase ?t = js ''weather: task completed.''"
    by (simp add: ascii_toLowerCase_def js_def ascii_lower_def)
  have 1: "?t \<noteq> []" by (simp add: js_def)
  have 2: "trim ?t \<noteq> []" by (simp add: trim_def js_def is_ws_def)
  have r1: "rule_location (js ''weather: task completed.'') ?t = None"
    by (simp add: rule_location_def js_includes_def js_def)
  have r2: "rule_places (js ''weather: task completed.'') ?t = None"
    by (simp add: rule_places_def js_includes_def js_def)
  have r3: "rule_navigation (js ''weather: task completed.'') ?t = None"
    by (simp add: rule_navigation_def js_includes_def js_def)
  have r4: "rule_temperature (js ''weather: task completed.'') = None"
    by (simp add: rule_temperature_def js_includes_def js_def)
  have r5: "rule_ac (js ''weather: task completed.'') = None"
    by (simp add: rule_ac_def js_includes_def js_def)
  have r6: "rule_music (js ''weather: task completed.'') = None"
    by (simp add: rule_music_def js_includes_def js_def)
  have r7: "rule_doors (js ''weather: task completed.'') = None"
    by (simp add: rule_doors_def js_includes_def js_def)
  have r8: "rule_lights (js ''weather: task completed.'') = None"
    by (simp add: rule_lights_def js_includes_def js_def)
  have r9: "rule_weather (js ''weather: task completed.'') ?t = Some (js ''Task completed.'')"
    by (simp add: rule_weather_def nonblank_lines_def degree_sign_def sun_cloud_def
        thermometer_def js_includes_def trim_def Let_def js_def utf16_def is_ws_def)
  have "extractKeyInfoForSpeech ascii_toLowerCase ?t = js ''Task completed.''"
    unfolding speech_ladder[OF 1 2] c r1 r2 r3 r4 r5 r6 r7 r8 r9 by simp
  moreover have "sentences_of ?t = [js ''Weather: Task completed'']"
    by (simp add: sentences_of_def is_punct_def trim_def js_def is_ws_def)
  ultimately show ?thesis by simp
qed

text \<open>
  C10, amended: a text that is empty or all white space is summed up as the empty string.
  When the summary is "Task completed.", the text is not blank, and either it yields no
  sentence at the marks \<open>.\<close>, \<open>!\<close>, \<open>?\<close> (the fallback), or the weather rule has
  returned that very text from a weather line.
\<close>

theorem task_completed_fallback:
  "((\<forall>c \<in> set text. is_ws c) \<longrightarrow> extractKeyInfoForSpeech lc text = [])
 \<and> (extractKeyInfoForSpeech lc text = js ''Task completed.'' \<longrightarrow>
       \<not> (\<forall>c \<in> set text. is_ws c)
       \<and> (sentences_of text = [] \<or> rule_weather (lc text) text = Some (js ''Task completed.'')))"
proof (intro conjI impI)
  assume "\<forall>c \<in> set text. is_ws c"
  then have "trim text = []" by (simp add: trim_Nil_iff)
  then show "extractKeyInfoForSpeech lc text = []" by (simp add: extractKeyInfoForSpeech_def)
next
  assume tc: "extractKeyInfoForSpeech lc text = js ''Task completed.''"
  have ne: "js ''Task completed.'' \<noteq> []" by (simp add: js_def)
  show nb: "\<not> (\<forall>c \<in> set text. is_ws c)"
  proof
    assume "\<forall>c \<in> set text. is_ws c"
    then have "trim text = []" by (simp add: trim_Nil_iff)
    then have "extractKeyInfoForSpeech lc text = []" by (simp add: extractKeyInfoForSpeech_def)
    with tc ne show False by simp
  qed
  let ?rules = "[rule_location (lc text) text, rule_places (lc text) text,
                 rule_navigation (lc text) text, rule_temperature (lc text), rule_ac (lc text),
                 rule_music (lc text), rule_doors (lc text), rule_lights (lc text),
                 rule_weather (lc text) text, rule_error (lc text), rule_general text]"
  from nb have t: "text \<noteq> []" "trim text \<noteq> []" by (auto simp: trim_Nil_iff)
  from t have c: "\<not> (text = [] \<or> length (trim text) = 0)" by simp
  have ex: "extractKeyInfoForSpeech lc text =
      (case first_return ?rules of Some r \<Rightarrow> r | None \<Rightarrow> js ''Task completed.'')"
    unfolding extractKeyInfoForSpeech_def Let_def by (simp only: c if_False)
  show "sentences_of text = [] \<or> rule_weather (lc text) text = Some (js ''Task completed.'')"
  proof (cases "first_return ?rules")
    case None
    then have "rule_general text = None" by (rule first_return_None) simp
    then show ?thesis by (simp add: rule_general_None)
  next
    case (Some r)
    have "extractKeyInfoForSpeech lc text = r"
      unfolding ex Some by (simp only: option.case)
    with tc have r: "r = js ''Task completed.''" by (simp only:)
    from Some have "Some r \<in> set ?rules" by (rule first_return_Some)
    then have "rule_weather (lc text) text = Some r"
      unfolding r by (auto simp: no_rule_fallback no_rule_fallback[symmetric])
    with r show ?thesis by simp
  qed
qed

theorem task_completed_fallback_witness:
  "extractKeyInfoForSpeech ascii_toLowerCase (js ''  '') = []
   \<and> extractKeyInfoForSpeech ascii_toLowerCase (js ''?!'') = js ''Task completed.''
   \<and> sentences_of (js ''?!'') = []"
proof -
  have b: "\<forall>c \<in> set (js ''  ''). is_ws c" by (simp add: js_def is_ws_def)
  from task_completed_fallback[of "js ''  ''" ascii_toLowerCase] b
  have blank: "extractKeyInfoForSpeech ascii_toLowerCase (js ''  '') = []" by blast
  let ?t = "js ''?!''"
  have c: "ascii_toLowerCase ?t = js ''?!''"
    by (simp add: ascii_toLowerCase_def js_def ascii_lower_def)
  have 1: "?t \<noteq> []" by (simp add: js_def)
  have 2: "trim ?t \<noteq> []" by (simp add: trim_def js_def is_ws_def)
  have s: "sentences_of ?t = []"
    by (simp add: sentences_of_def is_punct_def trim_def js_def)
  have r: "rule_location ?t ?t = None" "rule_places ?t ?t = None" "rule_navigation ?t ?t = None"
    "rule_temperature ?t = None" "rule_ac ?t = None" "rule_music ?t = None"
    "rule_doors ?t = None" "rule_lights ?t = None" "rule_weather ?t ?t = None"
    "rule_error ?t = None"
    by (simp_all add: speech_rule_defs js_includes_def js_def)
  have g: "rule_general ?t = None" by (simp add: rule_general_def s)
  have tc: "extractKeyInfoForSpeech ascii_toLowerCase ?t = js ''Task completed.''"
    unfolding speech_ladder[OF 1 2] c r g by simp
  from task_completed_fallback[of ?t ascii_toLowerCase] tc
  have "sentences_of ?t = [] \<or> rule_weather (ascii_toLowerCase ?t) ?t = Some (js ''Task completed.'')"
    by blast
  with blank tc s show ?thesis by blast
qed


end
